theory Spec2Isabelle
  imports Complex_Main "HOL-Library.AList"
begin

section \<open>Data model (shared/schema.ts)\<close>

text \<open>
  Every table of \<^verbatim>\<open>shared/schema.ts\<close> becomes a record. Field names carry a prefix
  (\<open>u_\<close>, \<open>t_\<close>, \<open>a_\<close>, ...) because the tables share column names. Ids are JavaScript
  numbers holding integers (\<open>int\<close>); timestamps are abstract clock readings (\<open>nat\<close>).
  The \<open>status\<close> columns have a database default, so the insert schemas make them optional,
  and the in-memory store fills in no default: a stored status can be \<^verbatim>\<open>undefined\<close>,
  which is \<open>None\<close> here.
\<close>

record user =
  u_id :: int
  u_username :: string
  u_password :: string
  u_email :: string
  u_fullName :: string
  u_role :: string
  u_profilePicture :: "string option"
  u_bio :: "string option"
  u_skills :: "string list"
  u_createdAt :: nat

record task =
  t_id :: int
  t_title :: string
  t_description :: string
  t_budget :: rat
  t_deadline :: nat
  t_requiredSkills :: "string list"
  t_employerId :: int
  t_status :: "string option"
  t_createdAt :: nat

record application =
  a_id :: int
  a_taskId :: int
  a_studentId :: int
  a_coverLetter :: string
  a_status :: "string option"
  a_appliedAt :: nat

text \<open>
  A payment amount is either the JSON number of the request body (every finite double is a
  rational) or \<^verbatim>\<open>paymentIntent.amount / 100\<close>, kept symbolic as the number of cents, so
  that no floating-point division is modelled. \<open>None\<close> is \<^verbatim>\<open>undefined\<close>.
\<close>

datatype amount = BodyAmount rat | IntentCentsOver100 int

record payment =
  p_id :: int
  p_applicationId :: int
  p_amount :: "amount option"
  p_status :: "string option"
  p_createdAt :: nat

record badge =
  b_id :: int
  b_name :: string
  b_description :: string
  b_category :: string
  b_level :: string
  b_icon :: string

record userBadge =
  ub_id :: int
  ub_userId :: int
  ub_badgeId :: int
  ub_awardedAt :: nat

text \<open>
  Notification contents are template literals; a content value keeps the template and its
  arguments instead of the rendered text. Metadata is a JSON object of numbers and strings.
\<close>

datatype content =
    NewApplicationReceived string
  | ApplicationHasBeen string string
  | PaymentReceived "amount option" string
  | BadgeAwarded string

datatype meta_value = MNum int | MStr string

record notification =
  n_id :: int
  n_userId :: int
  n_type :: string
  n_content :: content
  n_isRead :: bool
  n_createdAt :: nat
  n_metadata :: "(string \<times> meta_value) list"

record insertNotification =
  in_userId :: int
  in_type :: string
  in_content :: content
  in_metadata :: "(string \<times> meta_value) list"

record insertBadge =
  ib_name :: string
  ib_description :: string
  ib_category :: string
  ib_level :: string
  ib_icon :: string

record insertUserBadge =
  iub_userId :: int
  iub_badgeId :: int

record insertApplication =
  ia_taskId :: int
  ia_studentId :: int
  ia_coverLetter :: string
  ia_status :: "string option"

record insertPayment =
  ip_applicationId :: int
  ip_amount :: "amount option"
  ip_status :: "string option"

text \<open>
  \<^verbatim>\<open>Partial<User>\<close> and \<^verbatim>\<open>Partial<Task>\<close>: a field is \<open>None\<close> when the object does not
  carry the key. The nullable columns carry a second option for JSON \<^verbatim>\<open>null\<close>.
\<close>

record partialUser =
  pu_id :: "int option"
  pu_username :: "string option"
  pu_password :: "string option"
  pu_email :: "string option"
  pu_fullName :: "string option"
  pu_role :: "string option"
  pu_profilePicture :: "string option option"
  pu_bio :: "string option option"
  pu_skills :: "string list option"
  pu_createdAt :: "nat option"

record partialTask =
  pt_id :: "int option"
  pt_title :: "string option"
  pt_description :: "string option"
  pt_budget :: "rat option"
  pt_deadline :: "nat option"
  pt_requiredSkills :: "string list option"
  pt_employerId :: "int option"
  pt_status :: "string option"
  pt_createdAt :: "nat option"

section \<open>MemStorage (server/storage.ts)\<close>

text \<open>
  A JavaScript \<^verbatim>\<open>Map\<close> is an association list in insertion order: \<^verbatim>\<open>get\<close> is
  \<^const>\<open>map_of\<close>, \<^verbatim>\<open>set\<close> is \<^const>\<open>AList.update\<close> (a key already present keeps its
  place, a new key goes last) and \<^verbatim>\<open>Array.from(m.values())\<close> is \<open>map snd\<close>.
\<close>

record store =
  users :: "(int \<times> user) list"
  tasks :: "(int \<times> task) list"
  applications :: "(int \<times> application) list"
  payments :: "(int \<times> payment) list"
  badges :: "(int \<times> badge) list"
  userBadges :: "(int \<times> userBadge) list"
  notifications :: "(int \<times> notification) list"
  currentUserId :: int
  currentTaskId :: int
  currentApplicationId :: int
  currentPaymentId :: int
  currentBadgeId :: int
  currentUserBadgeId :: int
  currentNotificationId :: int

text \<open>A thrown \<^verbatim>\<open>Error\<close>: the store's "not found" errors, or a collaborator's failure.\<close>

datatype error = EntityNotFound string int | ExternalError string

definition createBadge :: "insertBadge \<Rightarrow> store \<Rightarrow> badge \<times> store" where
  "createBadge ib s =
     (let ident = currentBadgeId s;
          badge = \<lparr>b_id = ident, b_name = ib_name ib, b_description = ib_description ib,
                   b_category = ib_category ib, b_level = ib_level ib, b_icon = ib_icon ib\<rparr>
      in (badge, s\<lparr>currentBadgeId := ident + 1, badges := AList.update ident badge (badges s)\<rparr>))"

definition emptyStorage :: store where
  "emptyStorage =
     \<lparr>users = [], tasks = [], applications = [], payments = [], badges = [], userBadges = [],
      notifications = [], currentUserId = 1, currentTaskId = 1, currentApplicationId = 1,
      currentPaymentId = 1, currentBadgeId = 1, currentUserBadgeId = 1,
      currentNotificationId = 1\<rparr>"

text \<open>The constructor: empty maps, counters at 1, then the four catalogue badges.\<close>

definition MemStorage :: store where
  "MemStorage =
     (let s0 = emptyStorage;
          s1 = snd (createBadge \<lparr>ib_name = ''JavaScript'',
                 ib_description = ''JavaScript programming skills'', ib_category = ''skill'',
                 ib_level = ''beginner'', ib_icon = ''code''\<rparr> s0);
          s2 = snd (createBadge \<lparr>ib_name = ''UI Design'',
                 ib_description = ''User Interface design skills'', ib_category = ''skill'',
                 ib_level = ''beginner'', ib_icon = ''palette''\<rparr> s1);
          s3 = snd (createBadge \<lparr>ib_name = ''Python'',
                 ib_description = ''Python programming skills'', ib_category = ''skill'',
                 ib_level = ''beginner'', ib_icon = ''code''\<rparr> s2);
          s4 = snd (createBadge \<lparr>ib_name = ''First Task Completed'',
                 ib_description = ''Completed your first task'', ib_category = ''achievement'',
                 ib_level = ''beginner'', ib_icon = ''award''\<rparr> s3)
      in s4)"

definition getUser :: "store \<Rightarrow> int \<Rightarrow> user option" where
  "getUser s ident = map_of (users s) ident"

text \<open>\<^verbatim>\<open>{ ...user, ...userData }\<close>: every key of the patch wins over the stored field.\<close>

definition mergeUser :: "user \<Rightarrow> partialUser \<Rightarrow> user" where
  "mergeUser u p =
     \<lparr>u_id = (case pu_id p of None \<Rightarrow> u_id u | Some v \<Rightarrow> v),
      u_username = (case pu_username p of None \<Rightarrow> u_username u | Some v \<Rightarrow> v),
      u_password = (case pu_password p of None \<Rightarrow> u_password u | Some v \<Rightarrow> v),
      u_email = (case pu_email p of None \<Rightarrow> u_email u | Some v \<Rightarrow> v),
      u_fullName = (case pu_fullName p of None \<Rightarrow> u_fullName u | Some v \<Rightarrow> v),
      u_role = (case pu_role p of None \<Rightarrow> u_role u | Some v \<Rightarrow> v),
      u_profilePicture = (case pu_profilePicture p of None \<Rightarrow> u_profilePicture u | Some v \<Rightarrow> v),
      u_bio = (case pu_bio p of None \<Rightarrow> u_bio u | Some v \<Rightarrow> v),
      u_skills = (case pu_skills p of None \<Rightarrow> u_skills u | Some v \<Rightarrow> v),
      u_createdAt = (case pu_createdAt p of None \<Rightarrow> u_createdAt u | Some v \<Rightarrow> v)\<rparr>"

definition updateUser :: "int \<Rightarrow> partialUser \<Rightarrow> store \<Rightarrow> (error + user) \<times> store" where
  "updateUser ident userData s =
     (case getUser s ident of
        None \<Rightarrow> (Inl (EntityNotFound ''User'' ident), s)
      | Some user \<Rightarrow>
          (let updatedUser = mergeUser user userData
           in (Inr updatedUser, s\<lparr>users := AList.update ident updatedUser (users s)\<rparr>)))"

definition getTask :: "store \<Rightarrow> int \<Rightarrow> task option" where
  "getTask s ident = map_of (tasks s) ident"

definition mergeTask :: "task \<Rightarrow> partialTask \<Rightarrow> task" where
  "mergeTask t p =
     \<lparr>t_id = (case pt_id p of None \<Rightarrow> t_id t | Some v \<Rightarrow> v),
      t_title = (case pt_title p of None \<Rightarrow> t_title t | Some v \<Rightarrow> v),
      t_description = (case pt_description p of None \<Rightarrow> t_description t | Some v \<Rightarrow> v),
      t_budget = (case pt_budget p of None \<Rightarrow> t_budget t | Some v \<Rightarrow> v),
      t_deadline = (case pt_deadline p of None \<Rightarrow> t_deadline t | Some v \<Rightarrow> v),
      t_requiredSkills = (case pt_requiredSkills p of None \<Rightarrow> t_requiredSkills t | Some v \<Rightarrow> v),
      t_employerId = (case pt_employerId p of None \<Rightarrow> t_employerId t | Some v \<Rightarrow> v),
      t_status = (case pt_status p of None \<Rightarrow> t_status t | Some v \<Rightarrow> Some v),
      t_createdAt = (case pt_createdAt p of None \<Rightarrow> t_createdAt t | Some v \<Rightarrow> v)\<rparr>"

definition updateTask :: "int \<Rightarrow> partialTask \<Rightarrow> store \<Rightarrow> (error + task) \<times> store" where
  "updateTask ident taskData s =
     (case getTask s ident of
        None \<Rightarrow> (Inl (EntityNotFound ''Task'' ident), s)
      | Some task \<Rightarrow>
          (let updatedTask = mergeTask task taskData
           in (Inr updatedTask, s\<lparr>tasks := AList.update ident updatedTask (tasks s)\<rparr>)))"

text \<open>The object literal \<^verbatim>\<open>{ status: v }\<close> as a \<^verbatim>\<open>Partial<Task>\<close>.\<close>

definition statusOnly :: "string \<Rightarrow> partialTask" where
  "statusOnly v =
     \<lparr>pt_id = None, pt_title = None, pt_description = None, pt_budget = None,
      pt_deadline = None, pt_requiredSkills = None, pt_employerId = None,
      pt_status = Some v, pt_createdAt = None\<rparr>"

definition getApplication :: "store \<Rightarrow> int \<Rightarrow> application option" where
  "getApplication s ident = map_of (applications s) ident"

definition getApplicationsByTaskId :: "store \<Rightarrow> int \<Rightarrow> application list" where
  "getApplicationsByTaskId s taskId =
     filter (\<lambda>application. a_taskId application = taskId) (map snd (applications s))"

definition getApplicationByStudentAndTask :: "store \<Rightarrow> int \<Rightarrow> int \<Rightarrow> application option" where
  "getApplicationByStudentAndTask s studentId taskId =
     List.find (\<lambda>application. a_studentId application = studentId \<and> a_taskId application = taskId)
       (map snd (applications s))"

definition createApplication :: "nat \<Rightarrow> insertApplication \<Rightarrow> store \<Rightarrow> application \<times> store" where
  "createApplication now ia s =
     (let ident = currentApplicationId s;
          application = \<lparr>a_id = ident, a_taskId = ia_taskId ia, a_studentId = ia_studentId ia,
                         a_coverLetter = ia_coverLetter ia, a_status = ia_status ia,
                         a_appliedAt = now\<rparr>
      in (application,
          s\<lparr>currentApplicationId := ident + 1,
            applications := AList.update ident application (applications s)\<rparr>))"

definition updateApplicationStatus ::
  "int \<Rightarrow> string \<Rightarrow> store \<Rightarrow> (error + application) \<times> store" where
  "updateApplicationStatus ident status s =
     (case getApplication s ident of
        None \<Rightarrow> (Inl (EntityNotFound ''Application'' ident), s)
      | Some application \<Rightarrow>
          (let updatedApplication = application\<lparr>a_status := Some status\<rparr>
           in (Inr updatedApplication,
               s\<lparr>applications := AList.update ident updatedApplication (applications s)\<rparr>)))"

definition createPayment :: "nat \<Rightarrow> insertPayment \<Rightarrow> store \<Rightarrow> payment \<times> store" where
  "createPayment now ip s =
     (let ident = currentPaymentId s;
          payment = \<lparr>p_id = ident, p_applicationId = ip_applicationId ip, p_amount = ip_amount ip,
                     p_status = ip_status ip, p_createdAt = now\<rparr>
      in (payment,
          s\<lparr>currentPaymentId := ident + 1, payments := AList.update ident payment (payments s)\<rparr>))"

definition getPayment :: "store \<Rightarrow> int \<Rightarrow> payment option" where
  "getPayment s ident = map_of (payments s) ident"

definition getBadge :: "store \<Rightarrow> int \<Rightarrow> badge option" where
  "getBadge s ident = map_of (badges s) ident"

definition awardBadgeToUser :: "nat \<Rightarrow> insertUserBadge \<Rightarrow> store \<Rightarrow> userBadge \<times> store" where
  "awardBadgeToUser now iub s =
     (case List.find
             (\<lambda>userBadge. ub_userId userBadge = iub_userId iub \<and> ub_badgeId userBadge = iub_badgeId iub)
             (map snd (userBadges s)) of
        Some existingUserBadge \<Rightarrow> (existingUserBadge, s)
      | None \<Rightarrow>
          (let ident = currentUserBadgeId s;
               userBadge = \<lparr>ub_id = ident, ub_userId = iub_userId iub, ub_badgeId = iub_badgeId iub,
                            ub_awardedAt = now\<rparr>
           in (userBadge,
               s\<lparr>currentUserBadgeId := ident + 1,
                 userBadges := AList.update ident userBadge (userBadges s)\<rparr>)))"

text \<open>
  \<^verbatim>\<open>createNotification\<close> of the in-memory store never throws. The routes call it through
  the \<^verbatim>\<open>IStorage\<close> interface, whose implementations may throw, so its type carries the
  error case.
\<close>

type_synonym createNotification_fn =
  "nat \<Rightarrow> insertNotification \<Rightarrow> store \<Rightarrow> (error + notification) \<times> store"

definition createNotification :: createNotification_fn where
  "createNotification now ins s =
     (let ident = currentNotificationId s;
          notification = \<lparr>n_id = ident, n_userId = in_userId ins, n_type = in_type ins,
                          n_content = in_content ins, n_isRead = False, n_createdAt = now,
                          n_metadata = in_metadata ins\<rparr>
      in (Inr notification,
          s\<lparr>currentNotificationId := ident + 1,
            notifications := AList.update ident notification (notifications s)\<rparr>))"

text \<open>A sequence of awards, each with the clock reading of its call.\<close>

fun awardAll :: "(nat \<times> insertUserBadge) list \<Rightarrow> store \<Rightarrow> store" where
  "awardAll [] s = s"
| "awardAll ((now, iub) # rest) s = awardAll rest (snd (awardBadgeToUser now iub s))"

text \<open>The associations the store holds for one (userId, badgeId) pair.\<close>

definition associations :: "store \<Rightarrow> int \<Rightarrow> int \<Rightarrow> userBadge list" where
  "associations s userId badgeId =
     filter (\<lambda>userBadge. ub_userId userBadge = userId \<and> ub_badgeId userBadge = badgeId)
       (map snd (userBadges s))"

record insertUser =
  iu_username :: string
  iu_password :: string
  iu_email :: string
  iu_fullName :: string
  iu_role :: string
  iu_profilePicture :: "string option"
  iu_bio :: "string option"
  iu_skills :: "string list option"

definition createUser :: "nat \<Rightarrow> insertUser \<Rightarrow> store \<Rightarrow> user \<times> store" where
  "createUser now iu s =
     (let ident = currentUserId s;
          user = \<lparr>u_id = ident, u_username = iu_username iu, u_password = iu_password iu,
                  u_email = iu_email iu, u_fullName = iu_fullName iu, u_role = iu_role iu,
                  u_profilePicture = iu_profilePicture iu, u_bio = iu_bio iu,
                  u_skills = (case iu_skills iu of None \<Rightarrow> [] | Some v \<Rightarrow> v),
                  u_createdAt = now\<rparr>
      in (user, s\<lparr>currentUserId := ident + 1, users := AList.update ident user (users s)\<rparr>))"

record insertTask =
  it_title :: string
  it_description :: string
  it_budget :: rat
  it_deadline :: nat
  it_requiredSkills :: "string list"
  it_employerId :: int
  it_status :: "string option"

definition createTask :: "nat \<Rightarrow> insertTask \<Rightarrow> store \<Rightarrow> task \<times> store" where
  "createTask now it s =
     (let ident = currentTaskId s;
          task = \<lparr>t_id = ident, t_title = it_title it, t_description = it_description it,
                  t_budget = it_budget it, t_deadline = it_deadline it,
                  t_requiredSkills = it_requiredSkills it, t_employerId = it_employerId it,
                  t_status = it_status it, t_createdAt = now\<rparr>
      in (task, s\<lparr>currentTaskId := ident + 1, tasks := AList.update ident task (tasks s)\<rparr>))"

section \<open>Routes (server/routes.ts)\<close>

text \<open>
  A response is its HTTP status and its JSON body. A handler takes the session's user
  (\<^verbatim>\<open>req.user\<close>, \<open>None\<close> when the request is not authenticated), the request's
  parameters and body, and the store; it returns the response and the store it leaves
  behind. The store is mutated in place, so a handler that ends in its \<^verbatim>\<open>catch\<close> keeps
  every write made before the throw. An id in the URL is an integer; \<^verbatim>\<open>parseInt\<close> of
  anything else is \<^verbatim>\<open>NaN\<close>, which is the key of no entry and behaves as any id that is
  not stored. Body fields are typed as their columns are; the bodies that the schemas
  reject for a field of the wrong type are not modelled apart from a missing field.
\<close>

datatype body =
    Message string
  | ZodError
  | UserJson user
  | TaskJson task
  | ApplicationJson application
  | PaymentJson payment
  | UserBadgeJson userBadge
  | PaymentNotCompleted string
  | PaymentConfirmed payment
  | ErrorConfirmingPayment error

datatype response = Response (statusCode: nat) (responseBody: body)

definition requireAuth :: "user option \<Rightarrow> response + user" where
  "requireAuth reqUser =
     (case reqUser of
        None \<Rightarrow> Inl (Response 401 (Message ''Unauthorized''))
      | Some u \<Rightarrow> Inr u)"

definition requireRole :: "string list \<Rightarrow> user option \<Rightarrow> response + user" where
  "requireRole roles reqUser =
     (case reqUser of
        None \<Rightarrow> Inl (Response 401 (Message ''Unauthorized''))
      | Some u \<Rightarrow>
          if u_role u \<notin> set roles then Inl (Response 403 (Message ''Forbidden''))
          else Inr u)"

subsection \<open>PATCH /api/users/:id\<close>

definition patch_api_users_id ::
  "user option \<Rightarrow> int \<Rightarrow> partialUser \<Rightarrow> store \<Rightarrow> response \<times> store" where
  "patch_api_users_id reqUser userId reqBody s =
     (case requireAuth reqUser of
        Inl r \<Rightarrow> (r, s)
      | Inr caller \<Rightarrow>
          if u_id caller \<noteq> userId \<and> u_role caller \<noteq> ''admin''
          then (Response 403 (Message ''Forbidden''), s)
          else (case updateUser userId reqBody s of
                  (Inl e, s1) \<Rightarrow> (Response 500 (Message ''Failed to update user''), s1)
                | (Inr updatedUser, s1) \<Rightarrow> (Response 200 (UserJson updatedUser), s1)))"

subsection \<open>POST /api/tasks\<close>

text \<open>
  The body of a new task. The handler first replaces a truthy \<open>deadline\<close> by
  \<^verbatim>\<open>new Date(deadline)\<close>: \<open>tb_deadline\<close> is \<open>None\<close> for a missing or falsy value,
  \<open>Some None\<close> for a value that gives an invalid date, and \<open>Some (Some t)\<close> for one that
  gives the date \<open>t\<close>. \<^verbatim>\<open>insertTaskSchema.parse\<close> then requires every column without a
  default (the deadline as a date) and takes \<open>status\<close> as optional, one of the enum's
  values. The handler hands \<^verbatim>\<open>{ ...req.body, employerId: req.user.id }\<close> to
  \<open>createTask\<close>, the body itself and not what the parse returned; on the columns of a task
  the two agree, and \<open>createTask\<close> sets \<open>id\<close> and \<open>createdAt\<close> itself.
\<close>

record taskBody =
  tb_title :: "string option"
  tb_description :: "string option"
  tb_budget :: "rat option"
  tb_deadline :: "nat option option"
  tb_requiredSkills :: "string list option"
  tb_employerId :: "int option"
  tb_status :: "string option"

definition insertTaskSchema_parse :: "taskBody \<Rightarrow> insertTask option" where
  "insertTaskSchema_parse b =
     (case (tb_title b, tb_description b, tb_budget b, tb_deadline b, tb_requiredSkills b,
            tb_employerId b) of
        (Some title, Some description, Some budget, Some (Some deadline), Some requiredSkills,
         Some employerId) \<Rightarrow>
          (case tb_status b of
             None \<Rightarrow> Some \<lparr>it_title = title, it_description = description, it_budget = budget,
                           it_deadline = deadline, it_requiredSkills = requiredSkills,
                           it_employerId = employerId, it_status = None\<rparr>
           | Some st \<Rightarrow>
               if st \<in> set [''open'', ''in-progress'', ''completed'']
               then Some \<lparr>it_title = title, it_description = description, it_budget = budget,
                          it_deadline = deadline, it_requiredSkills = requiredSkills,
                          it_employerId = employerId, it_status = Some st\<rparr>
               else None)
      | _ \<Rightarrow> None)"

definition post_api_tasks ::
  "nat \<Rightarrow> user option \<Rightarrow> taskBody \<Rightarrow> store \<Rightarrow> response \<times> store" where
  "post_api_tasks now reqUser reqBody s =
     (case requireRole [''employer'', ''admin''] reqUser of
        Inl r \<Rightarrow> (r, s)
      | Inr caller \<Rightarrow>
          if tb_deadline reqBody = Some None
          then (Response 400 (Message ''Invalid deadline date format''), s)
          else
            (case insertTaskSchema_parse reqBody of
               None \<Rightarrow> (Response 400 ZodError, s)
             | Some parsed \<Rightarrow>
                 (case createTask now (parsed\<lparr>it_employerId := u_id caller\<rparr>) s of
                    (newTask, s1) \<Rightarrow> (Response 201 (TaskJson newTask), s1))))"

subsection \<open>PATCH /api/tasks/:id\<close>

text \<open>The body goes to \<open>updateTask\<close> as it is: no schema is applied to it.\<close>

definition patch_api_tasks_id ::
  "user option \<Rightarrow> int \<Rightarrow> partialTask \<Rightarrow> store \<Rightarrow> response \<times> store" where
  "patch_api_tasks_id reqUser taskId reqBody s =
     (case requireRole [''employer'', ''admin''] reqUser of
        Inl r \<Rightarrow> (r, s)
      | Inr caller \<Rightarrow>
          (case getTask s taskId of
             None \<Rightarrow> (Response 404 (Message ''Task not found''), s)
           | Some task \<Rightarrow>
               if t_employerId task \<noteq> u_id caller \<and> u_role caller \<noteq> ''admin''
               then (Response 403 (Message ''Forbidden''), s)
               else
                 (case updateTask taskId reqBody s of
                    (Inl e, s1) \<Rightarrow> (Response 500 (Message ''Failed to update task''), s1)
                  | (Inr updatedTask, s1) \<Rightarrow> (Response 200 (TaskJson updatedTask), s1))))"

subsection \<open>POST /api/applications\<close>

text \<open>
  The request body, each key optional, and \<^verbatim>\<open>insertApplicationSchema.parse\<close>: the
  columns without a default are required, \<open>status\<close> is optional and one of the enum's
  values. \<open>None\<close> is a parse that throws.
\<close>

record applicationBody =
  ab_taskId :: "int option"
  ab_studentId :: "int option"
  ab_coverLetter :: "string option"
  ab_status :: "string option"

definition insertApplicationSchema_parse :: "applicationBody \<Rightarrow> insertApplication option" where
  "insertApplicationSchema_parse b =
     (case (ab_taskId b, ab_studentId b, ab_coverLetter b) of
        (Some taskId, Some studentId, Some coverLetter) \<Rightarrow>
          (case ab_status b of
             None \<Rightarrow> Some \<lparr>ia_taskId = taskId, ia_studentId = studentId,
                           ia_coverLetter = coverLetter, ia_status = None\<rparr>
           | Some st \<Rightarrow>
               if st \<in> set [''applied'', ''accepted'', ''rejected'']
               then Some \<lparr>ia_taskId = taskId, ia_studentId = studentId,
                          ia_coverLetter = coverLetter, ia_status = Some st\<rparr>
               else None)
      | _ \<Rightarrow> None)"

definition post_api_applications ::
  "createNotification_fn \<Rightarrow> nat \<Rightarrow> user option \<Rightarrow> applicationBody \<Rightarrow> store \<Rightarrow> response \<times> store" where
  "post_api_applications storage_createNotification now reqUser reqBody s =
     (case requireRole [''student''] reqUser of
        Inl r \<Rightarrow> (r, s)
      | Inr caller \<Rightarrow>
          (case insertApplicationSchema_parse reqBody of
             None \<Rightarrow> (Response 400 ZodError, s)
           | Some parsed \<Rightarrow>
               (case getApplicationByStudentAndTask s (u_id caller) (ia_taskId parsed) of
                  Some existing \<Rightarrow>
                    (Response 400 (Message ''You have already applied to this task''), s)
                | None \<Rightarrow>
                    (case createApplication now (parsed\<lparr>ia_studentId := u_id caller\<rparr>) s of
                       (newApplication, s1) \<Rightarrow>
                         (case getTask s1 (ia_taskId parsed) of
                            None \<Rightarrow> (Response 201 (ApplicationJson newApplication), s1)
                          | Some task \<Rightarrow>
                              (case storage_createNotification now
                                      \<lparr>in_userId = t_employerId task,
                                       in_type = ''new_application'',
                                       in_content = NewApplicationReceived (t_title task),
                                       in_metadata =
                                         [(''taskId'', MNum (t_id task)),
                                          (''applicationId'', MNum (a_id newApplication))]\<rparr> s1 of
                                 (Inl e, s2) \<Rightarrow>
                                   (Response 500 (Message ''Failed to create application''), s2)
                               | (Inr n, s2) \<Rightarrow>
                                   (Response 201 (ApplicationJson newApplication), s2)))))))"

subsection \<open>PATCH /api/applications/:id/status\<close>

text \<open>
  The loop over \<^verbatim>\<open>otherApplications\<close>: the list is the snapshot read before the loop, and
  the test \<^verbatim>\<open>app.status === 'applied'\<close> reads the snapshot's entry. A throw leaves the loop.
\<close>

fun rejectOthers ::
  "createNotification_fn \<Rightarrow> nat \<Rightarrow> task \<Rightarrow> int \<Rightarrow> application list \<Rightarrow> store \<Rightarrow>
     (error + unit) \<times> store" where
  "rejectOthers storage_createNotification now task applicationId [] s = (Inr (), s)"
| "rejectOthers storage_createNotification now task applicationId (app # rest) s =
     (if a_id app \<noteq> applicationId \<and> a_status app = Some ''applied''
      then (case updateApplicationStatus (a_id app) ''rejected'' s of
              (Inl e, s1) \<Rightarrow> (Inl e, s1)
            | (Inr updated, s1) \<Rightarrow>
                (case storage_createNotification now
                        \<lparr>in_userId = a_studentId app,
                         in_type = ''application_rejected'',
                         in_content = ApplicationHasBeen (t_title task) ''rejected'',
                         in_metadata =
                           [(''taskId'', MNum (t_id task)),
                            (''applicationId'', MNum (a_id app))]\<rparr> s1 of
                   (Inl e, s2) \<Rightarrow> (Inl e, s2)
                 | (Inr n, s2) \<Rightarrow>
                     rejectOthers storage_createNotification now task applicationId rest s2))
      else rejectOthers storage_createNotification now task applicationId rest s)"

text \<open>
  The body's \<open>status\<close> is a string here; a body with no \<open>status\<close>, or with one that is not a
  string, fails \<^verbatim>\<open>includes\<close> as any string outside the list does.
\<close>

definition patch_api_applications_id_status ::
  "createNotification_fn \<Rightarrow> nat \<Rightarrow> user option \<Rightarrow> int \<Rightarrow> string \<Rightarrow> store \<Rightarrow> response \<times> store" where
  "patch_api_applications_id_status storage_createNotification now reqUser applicationId status s =
     (case requireRole [''employer'', ''admin''] reqUser of
        Inl r \<Rightarrow> (r, s)
      | Inr caller \<Rightarrow>
          if status \<notin> set [''applied'', ''accepted'', ''rejected'']
          then (Response 400 (Message ''Invalid status''), s)
          else
            (case getApplication s applicationId of
               None \<Rightarrow> (Response 404 (Message ''Application not found''), s)
             | Some application \<Rightarrow>
                 (case getTask s (a_taskId application) of
                    None \<Rightarrow> (Response 404 (Message ''Task not found''), s)
                  | Some task \<Rightarrow>
                      if t_employerId task \<noteq> u_id caller \<and> u_role caller \<noteq> ''admin''
                      then (Response 403 (Message ''Forbidden''), s)
                      else
                        (case updateApplicationStatus applicationId status s of
                           (Inl e, s1) \<Rightarrow>
                             (Response 500 (Message ''Failed to update application status''), s1)
                         | (Inr updatedApplication, s1) \<Rightarrow>
                             (case (if status = ''accepted''
                                    then (case updateTask (t_id task) (statusOnly ''in-progress'') s1 of
                                            (Inl e, s2) \<Rightarrow> (Inl e, s2)
                                          | (Inr updatedTask, s2) \<Rightarrow>
                                              rejectOthers storage_createNotification now task
                                                applicationId
                                                (getApplicationsByTaskId s2 (t_id task)) s2)
                                    else (Inr (), s1)) of
                                (Inl e, s3) \<Rightarrow>
                                  (Response 500 (Message ''Failed to update application status''), s3)
                              | (Inr u, s3) \<Rightarrow>
                                  (case storage_createNotification now
                                          \<lparr>in_userId = a_studentId application,
                                           in_type = ''application_'' @ status,
                                           in_content = ApplicationHasBeen (t_title task) status,
                                           in_metadata =
                                             [(''taskId'', MNum (t_id task)),
                                              (''applicationId'', MNum (a_id application))]\<rparr> s3 of
                                     (Inl e, s4) \<Rightarrow>
                                       (Response 500
                                          (Message ''Failed to update application status''), s4)
                                   | (Inr n, s4) \<Rightarrow>
                                       (Response 200 (ApplicationJson updatedApplication), s4)))))))"

subsection \<open>POST /api/payments\<close>

record paymentBody =
  pb_applicationId :: "int option"
  pb_amount :: "rat option"
  pb_status :: "string option"

definition insertPaymentSchema_parse :: "paymentBody \<Rightarrow> insertPayment option" where
  "insertPaymentSchema_parse b =
     (case (pb_applicationId b, pb_amount b) of
        (Some applicationId, Some amount) \<Rightarrow>
          (case pb_status b of
             None \<Rightarrow> Some \<lparr>ip_applicationId = applicationId,
                           ip_amount = Some (BodyAmount amount), ip_status = None\<rparr>
           | Some st \<Rightarrow>
               if st \<in> set [''pending'', ''completed'']
               then Some \<lparr>ip_applicationId = applicationId,
                          ip_amount = Some (BodyAmount amount), ip_status = Some st\<rparr>
               else None)
      | _ \<Rightarrow> None)"

definition post_api_payments ::
  "createNotification_fn \<Rightarrow> nat \<Rightarrow> user option \<Rightarrow> paymentBody \<Rightarrow> store \<Rightarrow> response \<times> store" where
  "post_api_payments storage_createNotification now reqUser reqBody s =
     (case requireRole [''employer'', ''admin''] reqUser of
        Inl r \<Rightarrow> (r, s)
      | Inr caller \<Rightarrow>
          (case insertPaymentSchema_parse reqBody of
             None \<Rightarrow> (Response 400 ZodError, s)
           | Some paymentData \<Rightarrow>
               (case getApplication s (ip_applicationId paymentData) of
                  None \<Rightarrow> (Response 404 (Message ''Application not found''), s)
                | Some application \<Rightarrow>
                    (case getTask s (a_taskId application) of
                       None \<Rightarrow> (Response 404 (Message ''Task not found''), s)
                     | Some task \<Rightarrow>
                         if t_employerId task \<noteq> u_id caller \<and> u_role caller \<noteq> ''admin''
                         then (Response 403 (Message ''Forbidden''), s)
                         else if t_status task \<noteq> Some ''in-progress''
                         then (Response 400
                                 (Message ''Cannot mark payment for a task that is not in progress''), s)
                         else
                           (case createPayment now paymentData s of
                              (newPayment, s1) \<Rightarrow>
                                (case updateTask (t_id task) (statusOnly ''completed'') s1 of
                                   (Inl e, s2) \<Rightarrow>
                                     (Response 500 (Message ''Failed to create payment''), s2)
                                 | (Inr updatedTask, s2) \<Rightarrow>
                                     (case storage_createNotification now
                                             \<lparr>in_userId = a_studentId application,
                                              in_type = ''payment_completed'',
                                              in_content =
                                                PaymentReceived (ip_amount paymentData) (t_title task),
                                              in_metadata =
                                                [(''taskId'', MNum (t_id task)),
                                                 (''applicationId'',
                                                    MNum (ip_applicationId paymentData)),
                                                 (''paymentId'', MNum (p_id newPayment))]\<rparr> s2 of
                                        (Inl e, s3) \<Rightarrow>
                                          (Response 500 (Message ''Failed to create payment''), s3)
                                      | (Inr n, s3) \<Rightarrow>
                                          (Response 201 (PaymentJson newPayment), s3))))))))"

subsection \<open>POST /api/payment-confirm\<close>

text \<open>
  The Stripe client is a collaborator: \<open>None\<close> when \<^verbatim>\<open>STRIPE_SECRET_KEY\<close> is not set,
  otherwise what \<^verbatim>\<open>paymentIntents.retrieve\<close> answers for an intent id (\<open>Inl\<close> when it
  throws).
\<close>

record paymentIntent =
  pi_id :: string
  pi_status :: string
  pi_amount :: int

type_synonym stripeClient = "(string \<Rightarrow> error + paymentIntent) option"

text \<open>
  The body of the confirmation request. \<^verbatim>\<open>!applicationId\<close> holds for a missing key and
  for \<open>0\<close>; \<^verbatim>\<open>parseInt\<close> of an integer is that integer. \<^verbatim>\<open>paymentIntentId\<close> is truthy
  when it is a non-empty string, \<open>simulatedPayment\<close> is its truthiness.
\<close>

record confirmBody =
  cb_applicationId :: "int option"
  cb_amount :: "rat option"
  cb_simulatedPayment :: bool
  cb_paymentIntentId :: "string option"

text \<open>
  The block \<^verbatim>\<open>if (paymentIntentId && stripe) { try { ... } catch (stripeError) { ... } }\<close>:
  it leaves \<open>paymentAmount\<close> and \<open>paymentReference\<close> for the rest of the handler, or returns
  the 400 response, or throws the Stripe error on.
\<close>

datatype verification =
    Proceed "amount option" string
  | NotCompleted string
  | Rethrow error

definition stripeVerification :: "stripeClient \<Rightarrow> confirmBody \<Rightarrow> verification" where
  "stripeVerification stripe reqBody =
     (let paymentAmount = map_option BodyAmount (cb_amount reqBody);
          paymentReference = ''simulated-payment''
      in (case (cb_paymentIntentId reqBody, stripe) of
            (Some paymentIntentId, Some retrieve) \<Rightarrow>
              if paymentIntentId = [] then Proceed paymentAmount paymentReference
              else
                (case retrieve paymentIntentId of
                   Inr paymentIntent \<Rightarrow>
                     if pi_status paymentIntent \<noteq> ''succeeded''
                     then NotCompleted (pi_status paymentIntent)
                     else Proceed (Some (IntentCentsOver100 (pi_amount paymentIntent)))
                            (pi_id paymentIntent)
                 | Inl stripeError \<Rightarrow>
                     if \<not> cb_simulatedPayment reqBody then Rethrow stripeError
                     else Proceed paymentAmount paymentReference)
          | _ \<Rightarrow> Proceed paymentAmount paymentReference))"

definition post_api_payment_confirm ::
  "createNotification_fn \<Rightarrow> stripeClient \<Rightarrow> nat \<Rightarrow> user option \<Rightarrow> confirmBody \<Rightarrow> store \<Rightarrow>
     response \<times> store" where
  "post_api_payment_confirm storage_createNotification stripe now reqUser reqBody s =
     (case requireAuth reqUser of
        Inl r \<Rightarrow> (r, s)
      | Inr caller \<Rightarrow>
          (case cb_applicationId reqBody of
             None \<Rightarrow> (Response 400 (Message ''Application ID is required''), s)
           | Some appId \<Rightarrow>
               if appId = 0 then (Response 400 (Message ''Application ID is required''), s)
               else
                 (case getApplication s appId of
                    None \<Rightarrow> (Response 404 (Message ''Application not found''), s)
                  | Some application \<Rightarrow>
                      (case getTask s (a_taskId application) of
                         None \<Rightarrow> (Response 404 (Message ''Task not found''), s)
                       | Some task \<Rightarrow>
                           (case stripeVerification stripe reqBody of
                              NotCompleted st \<Rightarrow> (Response 400 (PaymentNotCompleted st), s)
                            | Rethrow e \<Rightarrow> (Response 500 (ErrorConfirmingPayment e), s)
                            | Proceed paymentAmount paymentReference \<Rightarrow>
                                (case createPayment now
                                        \<lparr>ip_applicationId = appId, ip_amount = paymentAmount,
                                         ip_status = Some ''completed''\<rparr> s of
                                   (newPayment, s1) \<Rightarrow>
                                     (case updateTask (t_id task) (statusOnly ''completed'') s1 of
                                        (Inl e, s2) \<Rightarrow>
                                          (Response 500 (ErrorConfirmingPayment e), s2)
                                      | (Inr updatedTask, s2) \<Rightarrow>
                                          (case storage_createNotification now
                                                  \<lparr>in_userId = a_studentId application,
                                                   in_type = ''payment_completed'',
                                                   in_content =
                                                     PaymentReceived paymentAmount (t_title task),
                                                   in_metadata =
                                                     [(''taskId'', MNum (t_id task)),
                                                      (''applicationId'', MNum appId),
                                                      (''paymentId'', MNum (p_id newPayment)),
                                                      (''referenceId'', MStr paymentReference)]\<rparr>
                                                  s2 of
                                             (Inl e, s3) \<Rightarrow>
                                               (Response 500 (ErrorConfirmingPayment e), s3)
                                           | (Inr n, s3) \<Rightarrow>
                                               (Response 200 (PaymentConfirmed newPayment), s3)))))))))"

subsection \<open>POST /api/badges/award\<close>

record userBadgeBody =
  ubb_userId :: "int option"
  ubb_badgeId :: "int option"

definition insertUserBadgeSchema_parse :: "userBadgeBody \<Rightarrow> insertUserBadge option" where
  "insertUserBadgeSchema_parse b =
     (case (ubb_userId b, ubb_badgeId b) of
        (Some userId, Some badgeId) \<Rightarrow> Some \<lparr>iub_userId = userId, iub_badgeId = badgeId\<rparr>
      | _ \<Rightarrow> None)"

definition post_api_badges_award ::
  "createNotification_fn \<Rightarrow> nat \<Rightarrow> user option \<Rightarrow> userBadgeBody \<Rightarrow> store \<Rightarrow> response \<times> store" where
  "post_api_badges_award storage_createNotification now reqUser reqBody s =
     (case requireRole [''admin''] reqUser of
        Inl r \<Rightarrow> (r, s)
      | Inr caller \<Rightarrow>
          (case insertUserBadgeSchema_parse reqBody of
             None \<Rightarrow> (Response 400 ZodError, s)
           | Some parsed \<Rightarrow>
               (case awardBadgeToUser now parsed s of
                  (newUserBadge, s1) \<Rightarrow>
                    (case getBadge s1 (iub_badgeId parsed) of
                       None \<Rightarrow> (Response 201 (UserBadgeJson newUserBadge), s1)
                     | Some badge \<Rightarrow>
                         (case storage_createNotification now
                                 \<lparr>in_userId = iub_userId parsed, in_type = ''badge_awarded'',
                                  in_content = BadgeAwarded (b_name badge),
                                  in_metadata = [(''badgeId'', MNum (b_id badge))]\<rparr> s1 of
                            (Inl e, s2) \<Rightarrow> (Response 500 (Message ''Failed to award badge''), s2)
                          | (Inr n, s2) \<Rightarrow> (Response 201 (UserBadgeJson newUserBadge), s2))))))"

subsection \<open>The server as a sequence of requests\<close>

text \<open>
  The routes above are all the routes that write a user, a task, an application, a payment
  or a user badge. The routes left out only read, or write messages, reports, badges and
  notifications; registration, which creates the users, is not in the source at hand. Each
  request carries its clock reading and, for the payment confirmation, what Stripe answers
  at that moment. The server runs on the in-memory store, so the notifications are those
  of \<^const>\<open>createNotification\<close>.
\<close>

datatype request =
    PatchUser "user option" int partialUser
  | PostTask nat "user option" taskBody
  | PatchTask "user option" int partialTask
  | PostApplication nat "user option" applicationBody
  | PatchApplicationStatus nat "user option" int string
  | PostPayment nat "user option" paymentBody
  | PostPaymentConfirm stripeClient nat "user option" confirmBody
  | PostBadgeAward nat "user option" userBadgeBody

fun handle :: "request \<Rightarrow> store \<Rightarrow> response \<times> store" where
  "handle (PatchUser reqUser userId reqBody) s = patch_api_users_id reqUser userId reqBody s"
| "handle (PostTask now reqUser reqBody) s = post_api_tasks now reqUser reqBody s"
| "handle (PatchTask reqUser taskId reqBody) s = patch_api_tasks_id reqUser taskId reqBody s"
| "handle (PostApplication now reqUser reqBody) s =
     post_api_applications createNotification now reqUser reqBody s"
| "handle (PatchApplicationStatus now reqUser applicationId status) s =
     patch_api_applications_id_status createNotification now reqUser applicationId status s"
| "handle (PostPayment now reqUser reqBody) s =
     post_api_payments createNotification now reqUser reqBody s"
| "handle (PostPaymentConfirm stripe now reqUser reqBody) s =
     post_api_payment_confirm createNotification stripe now reqUser reqBody s"
| "handle (PostBadgeAward now reqUser reqBody) s =
     post_api_badges_award createNotification now reqUser reqBody s"

fun run :: "request list \<Rightarrow> store \<Rightarrow> store" where
  "run [] s = s"
| "run (r # rs) s = run rs (snd (handle r s))"

subsection \<open>Properties of a store\<close>

text \<open>The applications the store holds for one (studentId, taskId) pair.\<close>

definition applicationsOf :: "store \<Rightarrow> int \<Rightarrow> int \<Rightarrow> application list" where
  "applicationsOf s studentId taskId =
     filter (\<lambda>application. a_studentId application = studentId \<and> a_taskId application = taskId)
       (map snd (applications s))"

definition pairCounts :: "store \<Rightarrow> int \<Rightarrow> int \<Rightarrow> nat" where
  "pairCounts s studentId taskId = length (applicationsOf s studentId taskId)"

definition uniqueApplications :: "store \<Rightarrow> bool" where
  "uniqueApplications s = (\<forall>studentId taskId. length (applicationsOf s studentId taskId) \<le> 1)"

text \<open>
  The applications are well-formed when the keys of their \<^verbatim>\<open>Map\<close> are distinct and
  every application is stored under its own id, as \<open>createApplication\<close> stores it.
\<close>

definition applicationsWellFormed :: "store \<Rightarrow> bool" where
  "applicationsWellFormed s =
     (distinct (map fst (applications s)) \<and> (\<forall>(k, a) \<in> set (applications s). a_id a = k))"


text \<open>
  An implementation of \<^verbatim>\<open>IStorage.createNotification\<close> that always throws and writes
  nothing, unlike the one of \<^verbatim>\<open>MemStorage\<close>.
\<close>

definition failingCreateNotification :: createNotification_fn where
  "failingCreateNotification now ins s = (Inl (ExternalError ''notification store unavailable''), s)"

subsection \<open>Example data\<close>

definition erin :: user where
  "erin = \<lparr>u_id = 1, u_username = ''erin'', u_password = ''pw-erin'',
     u_email = ''erin@example.org'', u_fullName = ''Erin Employer'', u_role = ''employer'',
     u_profilePicture = None, u_bio = None, u_skills = [], u_createdAt = 1\<rparr>"

definition sam :: user where
  "sam = \<lparr>u_id = 2, u_username = ''sam'', u_password = ''pw-sam'',
     u_email = ''sam@example.org'', u_fullName = ''Sam Student'', u_role = ''student'',
     u_profilePicture = None, u_bio = None, u_skills = [''JavaScript''], u_createdAt = 2\<rparr>"

definition tara :: user where
  "tara = \<lparr>u_id = 3, u_username = ''tara'', u_password = ''pw-tara'',
     u_email = ''tara@example.org'', u_fullName = ''Tara Student'', u_role = ''student'',
     u_profilePicture = None, u_bio = None, u_skills = [], u_createdAt = 3\<rparr>"

definition insertOf :: "user \<Rightarrow> insertUser" where
  "insertOf u = \<lparr>iu_username = u_username u, iu_password = u_password u, iu_email = u_email u,
     iu_fullName = u_fullName u, iu_role = u_role u, iu_profilePicture = u_profilePicture u,
     iu_bio = u_bio u, iu_skills = Some (u_skills u)\<rparr>"

definition applyBody :: "int \<Rightarrow> int \<Rightarrow> applicationBody" where
  "applyBody taskId studentId =
     \<lparr>ab_taskId = Some taskId, ab_studentId = Some studentId,
      ab_coverLetter = Some ''I would like to work on this task.'',
      ab_status = Some ''applied''\<rparr>"

text \<open>The body \<^verbatim>\<open>{}\<close> of a profile update.\<close>

definition noKeys :: partialUser where
  "noKeys = \<lparr>pu_id = None, pu_username = None, pu_password = None, pu_email = None,
     pu_fullName = None, pu_role = None, pu_profilePicture = None, pu_bio = None,
     pu_skills = None, pu_createdAt = None\<rparr>"

text \<open>
  The two bodies the client sends to the payment confirmation: the dashboard's simulated
  payment, and the payment page's confirmation of a Stripe intent.
\<close>

definition simulatedBody :: "int \<Rightarrow> rat \<Rightarrow> confirmBody" where
  "simulatedBody applicationId amount =
     \<lparr>cb_applicationId = Some applicationId, cb_amount = Some amount,
      cb_simulatedPayment = True, cb_paymentIntentId = None\<rparr>"





text \<open>The body \<^verbatim>\<open>{ id: v }\<close> of a task update.\<close>

definition idOnly :: "int \<Rightarrow> partialTask" where
  "idOnly v =
     \<lparr>pt_id = Some v, pt_title = None, pt_description = None, pt_budget = None,
      pt_deadline = None, pt_requiredSkills = None, pt_employerId = None,
      pt_status = None, pt_createdAt = None\<rparr>"

definition logoBody :: taskBody where
  "logoBody =
     \<lparr>tb_title = Some ''Design a logo'', tb_description = Some ''A logo for the shop'',
      tb_budget = Some 2000, tb_deadline = Some (Some 200),
      tb_requiredSkills = Some [''UI Design''], tb_employerId = Some 1,
      tb_status = Some ''open''\<rparr>"

text \<open>Erin, Sam and Tara register, and Erin posts task 1 (open).\<close>

definition postedStore :: store where
  "postedStore =
     (let s1 = snd (createUser 1 (insertOf erin) MemStorage);
          s2 = snd (createUser 2 (insertOf sam) s1);
          s3 = snd (createUser 3 (insertOf tara) s2)
      in snd (createTask 4 \<lparr>it_title = ''Build a website'',
                it_description = ''A landing page'', it_budget = 5000, it_deadline = 100,
                it_requiredSkills = [''JavaScript''], it_employerId = 1,
                it_status = Some ''open''\<rparr> s3))"

text \<open>Sam and Tara apply to task 1 through the route (applications 1 and 2).\<close>

definition demoStore :: store where
  "demoStore =
     run [PostApplication 5 (Some sam) (applyBody 1 2),
          PostApplication 6 (Some tara) (applyBody 1 3)] postedStore"

text \<open>The same store after Erin has accepted Sam's application.\<close>

definition acceptedStore :: store where
  "acceptedStore = run [PatchApplicationStatus 7 (Some erin) 1 ''accepted''] demoStore"


text \<open>
  From the example store: Erin posts task 2, Sam applies to it (application 3), and Erin
  sends task 1 the body \<^verbatim>\<open>{ id: 2 }\<close>.
\<close>

definition renumberedStore :: store where
  "renumberedStore =
     run [PostTask 8 (Some erin) logoBody,
          PostApplication 9 (Some sam) (applyBody 2 2),
          PatchTask (Some erin) 1 (idOnly 2)] demoStore"

section \<open>Real-time relay (socket.io handlers of server/routes.ts)\<close>

text \<open>
  The rows of the \<open>messages\<close> table; a chat message pushed through the relay is such an
  object, or \<open>None\<close> when the client sent none.
\<close>

record message =
  m_id :: int
  m_applicationId :: int
  m_senderId :: int
  m_receiverId :: int
  m_content :: string
  m_createdAt :: nat
  m_isRead :: bool

text \<open>
  What the server emits, named as in the source. The timestamps of the payloads are left
  out.
\<close>

datatype serverEvent =
    room_joined string
  | receive_message "message option"
  | message_sent int
  | message_error
  | pong_callback string
  | pong string

text \<open>
  The relay's state: socket.io's table of rooms (room name to the ids of its sockets, a
  \<^verbatim>\<open>Map\<close> of \<^verbatim>\<open>Set\<close>s in insertion order) and the log of every event emitted, with the
  socket it went to.
\<close>

record relay =
  rooms :: "(string \<times> string list) list"
  emitted :: "(string \<times> serverEvent) list"

definition roomMembers :: "relay \<Rightarrow> string \<Rightarrow> string list" where
  "roomMembers r room = (case map_of (rooms r) room of None \<Rightarrow> [] | Some members \<Rightarrow> members)"

text \<open>
  The socket.io operations the handlers call, after the library's documentation:
  \<^verbatim>\<open>socket.join(room)\<close> adds the socket to the room; \<^verbatim>\<open>socket.emit\<close> sends to the
  socket itself; \<^verbatim>\<open>socket.to(room).emit\<close> sends to every socket of the room but the
  socket itself; a new socket joins the room named by its own id, and a socket that
  disconnects leaves every room.
\<close>

definition socket_join :: "string \<Rightarrow> string \<Rightarrow> relay \<Rightarrow> relay" where
  "socket_join socketId room r =
     r\<lparr>rooms := AList.update room
          (if socketId \<in> set (roomMembers r room) then roomMembers r room
           else roomMembers r room @ [socketId]) (rooms r)\<rparr>"

definition socket_emit :: "string \<Rightarrow> serverEvent \<Rightarrow> relay \<Rightarrow> relay" where
  "socket_emit socketId ev r = r\<lparr>emitted := emitted r @ [(socketId, ev)]\<rparr>"

definition socket_to_emit :: "string \<Rightarrow> string \<Rightarrow> serverEvent \<Rightarrow> relay \<Rightarrow> relay" where
  "socket_to_emit socketId room ev r =
     r\<lparr>emitted := emitted r @
          map (\<lambda>member. (member, ev)) (filter (\<lambda>member. member \<noteq> socketId) (roomMembers r room))\<rparr>"

definition socket_connect :: "string \<Rightarrow> relay \<Rightarrow> relay" where
  "socket_connect socketId r = socket_join socketId socketId r"

definition socket_disconnect :: "string \<Rightarrow> relay \<Rightarrow> relay" where
  "socket_disconnect socketId r =
     r\<lparr>rooms := map (\<lambda>(room, members). (room, filter (\<lambda>member. member \<noteq> socketId) members))
          (rooms r)\<rparr>"

text \<open>
  The decimal text of an integer, as a template literal renders a number below
  \<open>10^21\<close> in magnitude.
\<close>

definition digitChar :: "nat \<Rightarrow> char" where
  "digitChar d =
     (if d = 0 then CHR ''0'' else if d = 1 then CHR ''1'' else if d = 2 then CHR ''2''
      else if d = 3 then CHR ''3'' else if d = 4 then CHR ''4'' else if d = 5 then CHR ''5''
      else if d = 6 then CHR ''6'' else if d = 7 then CHR ''7'' else if d = 8 then CHR ''8''
      else CHR ''9'')"

fun natToString :: "nat \<Rightarrow> string" where
  "natToString n =
     (if n < 10 then [digitChar n]
      else natToString (n div 10) @ [digitChar (n mod 10)])"

definition numberToString :: "int \<Rightarrow> string" where
  "numberToString i = (if i < 0 then ''-'' @ natToString (nat (- i)) else natToString (nat i))"

definition roomName :: "int \<Rightarrow> string" where
  "roomName applicationId = ''application_'' @ numberToString applicationId"

definition join_application :: "string \<Rightarrow> int \<Rightarrow> relay \<Rightarrow> relay" where
  "join_application socketId applicationId r =
     socket_emit socketId (room_joined (roomName applicationId))
       (socket_join socketId (roomName applicationId) r)"

text \<open>
  The payload of \<open>send_message\<close>; \<open>None\<close> is a payload that cannot be destructured. After
  the broadcast the handler reads \<^verbatim>\<open>message.id\<close>, which throws when there is no message:
  the sender then gets \<open>message_error\<close> in place of \<open>message_sent\<close>.
\<close>

record sendMessageData =
  sd_applicationId :: int
  sd_message :: "message option"

definition send_message :: "string \<Rightarrow> sendMessageData option \<Rightarrow> relay \<Rightarrow> relay" where
  "send_message socketId data r =
     (case data of
        None \<Rightarrow> socket_emit socketId message_error r
      | Some d \<Rightarrow>
          (let r1 = socket_to_emit socketId (roomName (sd_applicationId d))
                      (receive_message (sd_message d)) r
           in (case sd_message d of
                 None \<Rightarrow> socket_emit socketId message_error r1
               | Some m \<Rightarrow> socket_emit socketId (message_sent (m_id m)) r1)))"

definition ping :: "string \<Rightarrow> bool \<Rightarrow> relay \<Rightarrow> relay" where
  "ping socketId hasCallback r =
     (if hasCallback then socket_emit socketId (pong_callback socketId) r
      else socket_emit socketId (pong socketId) r)"

datatype socketEvent =
    Connection string
  | JoinApplication string int
  | SendMessage string "sendMessageData option"
  | Ping string bool
  | Disconnect string

fun relayStep :: "socketEvent \<Rightarrow> relay \<Rightarrow> relay" where
  "relayStep (Connection socketId) r = socket_connect socketId r"
| "relayStep (JoinApplication socketId applicationId) r = join_application socketId applicationId r"
| "relayStep (SendMessage socketId data) r = send_message socketId data r"
| "relayStep (Ping socketId hasCallback) r = ping socketId hasCallback r"
| "relayStep (Disconnect socketId) r = socket_disconnect socketId r"

fun relayRun :: "socketEvent list \<Rightarrow> relay \<Rightarrow> relay" where
  "relayRun [] r = r"
| "relayRun (e # es) r = relayRun es (relayStep e r)"

definition emptyRelay :: relay where
  "emptyRelay = \<lparr>rooms = [], emitted = []\<rparr>"

text \<open>The sockets that were sent the given event among the events emitted after \<open>r\<close>.\<close>

definition recipients :: "relay \<Rightarrow> relay \<Rightarrow> serverEvent \<Rightarrow> string list" where
  "recipients r r' ev =
     map fst (filter (\<lambda>(socketId, e). e = ev) (drop (length (emitted r)) (emitted r')))"

text \<open>The members of a room form a \<^verbatim>\<open>Set\<close>: no socket is listed twice.\<close>

definition roomsDistinct :: "relay \<Rightarrow> bool" where
  "roomsDistinct r = (\<forall>(room, members) \<in> set (rooms r). distinct members)"

section \<open>Invariants used in the proofs\<close>

definition userBadgeIdsFresh :: "store \<Rightarrow> bool" where
  "userBadgeIdsFresh s = (\<forall>k \<in> fst ` set (userBadges s). k < currentUserBadgeId s)"

section \<open>Facts about the Map model\<close>

lemma update_fresh: "k \<notin> fst ` set al \<Longrightarrow> AList.update k v al = al @ [(k, v)]"
  by (induction al) auto

lemma in_set_updateD:
  "(a, b) \<in> set (AList.update k v al) \<Longrightarrow> (a, b) = (k, v) \<or> (a, b) \<in> set al"
  by (induction al) (auto split: if_splits)

lemma find_None_filter: "List.find P xs = None \<longleftrightarrow> filter P xs = []"
  by (induction xs) auto

lemma find_Some_filter: "List.find P xs = Some x \<longleftrightarrow> (\<exists>ys. filter P xs = x # ys)"
  by (induction xs) auto

section \<open>Badge awards\<close>

lemma awardBadgeToUser_fresh:
  "userBadgeIdsFresh s \<Longrightarrow> userBadgeIdsFresh (snd (awardBadgeToUser now iub s))"
  by (auto simp: userBadgeIdsFresh_def awardBadgeToUser_def Let_def split: option.splits
           dest!: in_set_updateD)

lemma awardBadgeToUser_associations:
  assumes "userBadgeIdsFresh s"
  shows "associations (snd (awardBadgeToUser now iub s)) u b =
     (if associations s u b = [] \<and> iub_userId iub = u \<and> iub_badgeId iub = b
      then [fst (awardBadgeToUser now iub s)] else associations s u b)"
proof (cases "associations s (iub_userId iub) (iub_badgeId iub) = []")
  case True
  have nin: "currentUserBadgeId s \<notin> fst ` set (userBadges s)"
    using assms by (auto simp: userBadgeIdsFresh_def)
  from True show ?thesis
    by (auto simp: associations_def awardBadgeToUser_def find_None_filter[symmetric] Let_def
          update_fresh[OF nin] split: option.splits)
next
  case False
  then obtain e where
    "List.find (\<lambda>userBadge. ub_userId userBadge = iub_userId iub \<and>
        ub_badgeId userBadge = iub_badgeId iub) (map snd (userBadges s)) = Some e"
    by (cases "List.find (\<lambda>userBadge. ub_userId userBadge = iub_userId iub \<and>
          ub_badgeId userBadge = iub_badgeId iub) (map snd (userBadges s))")
       (auto simp: associations_def find_None_filter)
  with False show ?thesis
    by (auto simp: awardBadgeToUser_def)
qed

lemma awardAll_associations:
  "userBadgeIdsFresh s \<Longrightarrow>
   length (associations (awardAll xs s) u b) =
     (if associations s u b = []
      then (if (u, b) \<in> (\<lambda>(now, iub). (iub_userId iub, iub_badgeId iub)) ` set xs then 1 else 0)
      else length (associations s u b))"
proof (induction xs arbitrary: s)
  case Nil
  then show ?case by simp
next
  case (Cons x xs)
  obtain now iub where x: "x = (now, iub)" by (cases x)
  let ?s = "snd (awardBadgeToUser now iub s)"
  have f: "userBadgeIdsFresh ?s" using Cons.prems by (rule awardBadgeToUser_fresh)
  show ?case
    using Cons.IH[OF f] awardBadgeToUser_associations[OF Cons.prems, of now iub u b]
    by (auto simp: x)
qed

lemma MemStorage_fresh: "userBadgeIdsFresh MemStorage"
  by (simp add: userBadgeIdsFresh_def MemStorage_def emptyStorage_def createBadge_def Let_def)

lemma MemStorage_associations: "associations MemStorage u b = []"
  by (simp add: associations_def MemStorage_def emptyStorage_def createBadge_def Let_def)

text \<open>
  Claim C8. Awarding a badge is idempotent. When the store already holds an association for
  the (userId, badgeId) of the call, \<open>awardBadgeToUser\<close> returns the first such association
  and the store is the same store (no entity is created, no counter moves). And after any
  sequence of awards on a freshly constructed store, each (userId, badgeId) pair has exactly
  one association if the sequence awarded it, and none otherwise.
\<close>

theorem awardBadgeToUser_idempotent:
  "(associations s (iub_userId iub) (iub_badgeId iub) = existing # others \<longrightarrow>
      awardBadgeToUser now iub s = (existing, s)) \<and>
   length (associations (awardAll xs MemStorage) u b) =
     (if (u, b) \<in> (\<lambda>(now, iub). (iub_userId iub, iub_badgeId iub)) ` set xs then 1 else 0)"
proof
  show "associations s (iub_userId iub) (iub_badgeId iub) = existing # others \<longrightarrow>
      awardBadgeToUser now iub s = (existing, s)"
    by (auto simp: associations_def awardBadgeToUser_def find_None_filter
          dest: find_Some_filter[THEN iffD2, OF exI] split: option.splits)
  show "length (associations (awardAll xs MemStorage) u b) =
     (if (u, b) \<in> (\<lambda>(now, iub). (iub_userId iub, iub_badgeId iub)) ` set xs then 1 else 0)"
    using awardAll_associations[OF MemStorage_fresh, of xs u b]
    by (simp add: MemStorage_associations)
qed

theorem awardBadgeToUser_idempotent_witness:
  "associations (snd (awardBadgeToUser 5 \<lparr>iub_userId = 7, iub_badgeId = 1\<rparr> MemStorage)) 7 1 =
     [\<lparr>ub_id = 1, ub_userId = 7, ub_badgeId = 1, ub_awardedAt = 5\<rparr>] \<and>
   awardBadgeToUser 9 \<lparr>iub_userId = 7, iub_badgeId = 1\<rparr>
       (snd (awardBadgeToUser 5 \<lparr>iub_userId = 7, iub_badgeId = 1\<rparr> MemStorage)) =
     (\<lparr>ub_id = 1, ub_userId = 7, ub_badgeId = 1, ub_awardedAt = 5\<rparr>,
      snd (awardBadgeToUser 5 \<lparr>iub_userId = 7, iub_badgeId = 1\<rparr> MemStorage)) \<and>
   length (associations
       (awardAll [(5, \<lparr>iub_userId = 7, iub_badgeId = 1\<rparr>), (9, \<lparr>iub_userId = 7, iub_badgeId = 1\<rparr>)]
          MemStorage) 7 1) = 1"
proof -
  let ?s = "snd (awardBadgeToUser 5 \<lparr>iub_userId = 7, iub_badgeId = 1\<rparr> MemStorage)"
  have h: "associations ?s (iub_userId \<lparr>iub_userId = 7, iub_badgeId = 1\<rparr>)
        (iub_badgeId \<lparr>iub_userId = 7, iub_badgeId = 1\<rparr>) =
      \<lparr>ub_id = 1, ub_userId = 7, ub_badgeId = 1, ub_awardedAt = 5\<rparr> # []"
    by (simp add: associations_def awardBadgeToUser_def MemStorage_def emptyStorage_def
          createBadge_def Let_def)
  from h awardBadgeToUser_idempotent[of ?s "\<lparr>iub_userId = 7, iub_badgeId = 1\<rparr>"
      "\<lparr>ub_id = 1, ub_userId = 7, ub_badgeId = 1, ub_awardedAt = 5\<rparr>" "[]" 9
      "[(5, \<lparr>iub_userId = 7, iub_badgeId = 1\<rparr>), (9, \<lparr>iub_userId = 7, iub_badgeId = 1\<rparr>)]" 7 1]
  show ?thesis by simp
qed

section \<open>The example stores, evaluated\<close>

lemmas handler_defs = patch_api_users_id_def post_api_tasks_def patch_api_tasks_id_def
  post_api_applications_def patch_api_applications_id_status_def
  post_api_payments_def post_api_payment_confirm_def post_api_badges_award_def
lemmas storage_defs = createUser_def createTask_def createApplication_def createPayment_def createBadge_def
  createNotification_def updateUser_def updateTask_def updateApplicationStatus_def awardBadgeToUser_def
  getUser_def getTask_def getApplication_def getPayment_def getBadge_def getApplicationsByTaskId_def getApplicationByStudentAndTask_def
  mergeUser_def mergeTask_def statusOnly_def
lemmas demo_defs = erin_def sam_def tara_def insertOf_def applyBody_def MemStorage_def emptyStorage_def
lemmas route_defs = requireAuth_def requireRole_def insertTaskSchema_parse_def insertApplicationSchema_parse_def insertPaymentSchema_parse_def insertUserBadgeSchema_parse_def stripeVerification_def

lemma postedStore_eq: "postedStore =
  \<lparr>users = [(1, erin), (2, sam), (3, tara)],
   tasks = [(1, \<lparr>t_id = 1, t_title = ''Build a website'', t_description = ''A landing page'',
             t_budget = 5000, t_deadline = 100, t_requiredSkills = [''JavaScript''],
             t_employerId = 1, t_status = Some ''open'', t_createdAt = 4\<rparr>)],
   applications = [], payments = [], badges = badges MemStorage, userBadges = [],
   notifications = [],
   currentUserId = 4, currentTaskId = 2, currentApplicationId = 1, currentPaymentId = 1,
   currentBadgeId = 5, currentUserBadgeId = 1, currentNotificationId = 1\<rparr>"
  by (simp add: postedStore_def storage_defs demo_defs Let_def)

lemma demoStore_eq: "demoStore =
  \<lparr>users = [(1, erin), (2, sam), (3, tara)],
   tasks = [(1, \<lparr>t_id = 1, t_title = ''Build a website'', t_description = ''A landing page'',
             t_budget = 5000, t_deadline = 100, t_requiredSkills = [''JavaScript''],
             t_employerId = 1, t_status = Some ''open'', t_createdAt = 4\<rparr>)],
   applications =
     [(1, \<lparr>a_id = 1, a_taskId = 1, a_studentId = 2,
            a_coverLetter = ''I would like to work on this task.'',
            a_status = Some ''applied'', a_appliedAt = 5\<rparr>),
      (2, \<lparr>a_id = 2, a_taskId = 1, a_studentId = 3,
            a_coverLetter = ''I would like to work on this task.'',
            a_status = Some ''applied'', a_appliedAt = 6\<rparr>)],
   payments = [], badges = badges MemStorage, userBadges = [],
   notifications =
     [(1, \<lparr>n_id = 1, n_userId = 1, n_type = ''new_application'',
            n_content = NewApplicationReceived ''Build a website'', n_isRead = False,
            n_createdAt = 5, n_metadata = [(''taskId'', MNum 1), (''applicationId'', MNum 1)]\<rparr>),
      (2, \<lparr>n_id = 2, n_userId = 1, n_type = ''new_application'',
            n_content = NewApplicationReceived ''Build a website'', n_isRead = False,
            n_createdAt = 6, n_metadata = [(''taskId'', MNum 1), (''applicationId'', MNum 2)]\<rparr>)],
   currentUserId = 4, currentTaskId = 2, currentApplicationId = 3, currentPaymentId = 1,
   currentBadgeId = 5, currentUserBadgeId = 1, currentNotificationId = 3\<rparr>"
  by (simp add: demoStore_def postedStore_eq handler_defs storage_defs applyBody_def sam_def
      tara_def route_defs Let_def)

lemma acceptedStore_eq: "acceptedStore =
  demoStore\<lparr>
   tasks := [(1, \<lparr>t_id = 1, t_title = ''Build a website'', t_description = ''A landing page'',
             t_budget = 5000, t_deadline = 100, t_requiredSkills = [''JavaScript''],
             t_employerId = 1, t_status = Some ''in-progress'', t_createdAt = 4\<rparr>)],
   applications :=
     [(1, \<lparr>a_id = 1, a_taskId = 1, a_studentId = 2,
            a_coverLetter = ''I would like to work on this task.'',
            a_status = Some ''accepted'', a_appliedAt = 5\<rparr>),
      (2, \<lparr>a_id = 2, a_taskId = 1, a_studentId = 3,
            a_coverLetter = ''I would like to work on this task.'',
            a_status = Some ''rejected'', a_appliedAt = 6\<rparr>)],
   notifications := notifications demoStore @
     [(3, \<lparr>n_id = 3, n_userId = 3, n_type = ''application_rejected'',
            n_content = ApplicationHasBeen ''Build a website'' ''rejected'', n_isRead = False,
            n_createdAt = 7, n_metadata = [(''taskId'', MNum 1), (''applicationId'', MNum 2)]\<rparr>),
      (4, \<lparr>n_id = 4, n_userId = 2, n_type = ''application_accepted'',
            n_content = ApplicationHasBeen ''Build a website'' ''accepted'', n_isRead = False,
            n_createdAt = 7, n_metadata = [(''taskId'', MNum 1), (''applicationId'', MNum 1)]\<rparr>)],
   currentNotificationId := 5\<rparr>"
  by (simp add: acceptedStore_def demoStore_eq handler_defs storage_defs erin_def route_defs Let_def)

lemma renumberedStore_eq: "renumberedStore =
  demoStore\<lparr>
   tasks := [(1, \<lparr>t_id = 2, t_title = ''Build a website'', t_description = ''A landing page'',
             t_budget = 5000, t_deadline = 100, t_requiredSkills = [''JavaScript''],
             t_employerId = 1, t_status = Some ''open'', t_createdAt = 4\<rparr>),
            (2, \<lparr>t_id = 2, t_title = ''Design a logo'', t_description = ''A logo for the shop'',
             t_budget = 2000, t_deadline = 200, t_requiredSkills = [''UI Design''],
             t_employerId = 1, t_status = Some ''open'', t_createdAt = 8\<rparr>)],
   applications :=
     [(1, \<lparr>a_id = 1, a_taskId = 1, a_studentId = 2,
            a_coverLetter = ''I would like to work on this task.'',
            a_status = Some ''applied'', a_appliedAt = 5\<rparr>),
      (2, \<lparr>a_id = 2, a_taskId = 1, a_studentId = 3,
            a_coverLetter = ''I would like to work on this task.'',
            a_status = Some ''applied'', a_appliedAt = 6\<rparr>),
      (3, \<lparr>a_id = 3, a_taskId = 2, a_studentId = 2,
            a_coverLetter = ''I would like to work on this task.'',
            a_status = Some ''applied'', a_appliedAt = 9\<rparr>)],
   notifications := notifications demoStore @
     [(3, \<lparr>n_id = 3, n_userId = 1, n_type = ''new_application'',
            n_content = NewApplicationReceived ''Design a logo'', n_isRead = False,
            n_createdAt = 9, n_metadata = [(''taskId'', MNum 2), (''applicationId'', MNum 3)]\<rparr>)],
   currentTaskId := 3, currentApplicationId := 4, currentNotificationId := 4\<rparr>"
  by (simp add: renumberedStore_def demoStore_eq handler_defs storage_defs erin_def sam_def
      route_defs logoBody_def idOnly_def applyBody_def Let_def)

section \<open>Application status targets\<close>

text \<open>
  Claim C9. The status route accepts \<open>applied\<close> as a target beside \<open>accepted\<close> and
  \<open>rejected\<close>. For a caller with the employer or admin role, any status outside the three
  is answered 400 "Invalid status" and the store is left as it was. For the task's employer
  or an admin, the target \<open>applied\<close> on an existing application of an existing task is
  answered 200 and the application is stored with status \<open>applied\<close>, whatever its status
  was: an accepted or rejected application goes back to \<open>applied\<close>.
\<close>

theorem applied_is_a_target_status:
  "(requireRole [''employer'', ''admin''] reqUser = Inr caller \<and>
    status \<notin> set [''applied'', ''accepted'', ''rejected''] \<longrightarrow>
      patch_api_applications_id_status cn now reqUser applicationId status s =
        (Response 400 (Message ''Invalid status''), s)) \<and>
   (requireRole [''employer'', ''admin''] reqUser = Inr caller \<and>
    getApplication s applicationId = Some A \<and> getTask s (a_taskId A) = Some T \<and>
    (t_employerId T = u_id caller \<or> u_role caller = ''admin'') \<longrightarrow>
      fst (patch_api_applications_id_status createNotification now reqUser applicationId
             ''applied'' s) =
        Response 200 (ApplicationJson (A\<lparr>a_status := Some ''applied''\<rparr>)) \<and>
      getApplication
        (snd (patch_api_applications_id_status createNotification now reqUser applicationId
                ''applied'' s)) applicationId =
        Some (A\<lparr>a_status := Some ''applied''\<rparr>))"
  by (auto simp add: patch_api_applications_id_status_def updateApplicationStatus_def
      getApplication_def update_conv' createNotification_def Let_def
      split: prod.splits sum.splits)

theorem applied_is_a_target_status_witness:
  "requireRole [''employer'', ''admin''] (Some erin) = Inr erin \<and>
   ''pending'' \<notin> set [''applied'', ''accepted'', ''rejected''] \<and>
   patch_api_applications_id_status createNotification 8 (Some erin) 1 ''pending'' acceptedStore =
     (Response 400 (Message ''Invalid status''), acceptedStore) \<and>
   map_option a_status (getApplication acceptedStore 1) = Some (Some ''accepted'') \<and>
   map_option a_status (getApplication acceptedStore 2) = Some (Some ''rejected'') \<and>
   map_option a_status
     (getApplication
        (snd (patch_api_applications_id_status createNotification 8 (Some erin) 1 ''applied''
                acceptedStore)) 1) = Some (Some ''applied'') \<and>
   map_option a_status
     (getApplication
        (snd (patch_api_applications_id_status createNotification 9 (Some erin) 2 ''applied''
                acceptedStore)) 2) = Some (Some ''applied'')"
proof -
  let ?A1 = "\<lparr>a_id = 1, a_taskId = 1, a_studentId = 2,
            a_coverLetter = ''I would like to work on this task.'',
            a_status = Some ''accepted'', a_appliedAt = 5\<rparr>"
  let ?A2 = "\<lparr>a_id = 2, a_taskId = 1, a_studentId = 3,
            a_coverLetter = ''I would like to work on this task.'',
            a_status = Some ''rejected'', a_appliedAt = 6\<rparr>"
  let ?T = "\<lparr>t_id = 1, t_title = ''Build a website'', t_description = ''A landing page'',
             t_budget = 5000, t_deadline = 100, t_requiredSkills = [''JavaScript''],
             t_employerId = 1, t_status = Some ''in-progress'', t_createdAt = 4\<rparr>"
  have r: "requireRole [''employer'', ''admin''] (Some erin) = Inr erin"
    by (simp add: requireRole_def erin_def)
  have a1: "getApplication acceptedStore 1 = Some ?A1"
    and a2: "getApplication acceptedStore 2 = Some ?A2"
    and t: "getTask acceptedStore 1 = Some ?T"
    by (simp_all add: acceptedStore_eq getApplication_def getTask_def)
  have o: "t_employerId ?T = u_id erin" by (simp add: erin_def)
  note w1 = applied_is_a_target_status[of "Some erin" erin "''pending''" createNotification 8 1
      acceptedStore ?A1 ?T]
  note w2 = applied_is_a_target_status[of "Some erin" erin "''pending''" createNotification 9 2
      acceptedStore ?A2 ?T]
  from r a1 a2 t o w1 w2 show ?thesis by simp
qed


section \<open>Profile updates\<close>

text \<open>
  Claim C6 says that a successful PATCH /api/users/:id never changes the user's id or role.
  The route hands the whole request body to \<^verbatim>\<open>updateUser\<close>, which spreads it over the
  stored user, \<^verbatim>\<open>{ ...user, ...userData }\<close>: a body that carries the keys \<open>id\<close> or \<open>role\<close>
  overwrites them. (\<^verbatim>\<open>createUser\<close> spreads the other way round, \<^verbatim>\<open>{ ...insertUser, id }\<close>, so
  that there the id cannot be overwritten.) Sam, a student, is the caller and the user
  updated, so the route's check \<^verbatim>\<open>req.user.id !== userId && req.user.role !== 'admin'\<close> lets
  him pass; he sends the keys \<open>id\<close> and \<open>role\<close>, the update is answered 200, and the user
  stored under key 2 now has id 99 and role \<open>admin\<close>.
\<close>

theorem patch_user_overwrites_id_and_role:
  "map_option u_id (getUser demoStore 2) = Some 2 \<and>
   map_option u_role (getUser demoStore 2) = Some ''student'' \<and>
   statusCode (fst (patch_api_users_id (Some sam) 2
      (noKeys\<lparr>pu_id := Some 99, pu_role := Some ''admin''\<rparr>) demoStore)) = 200 \<and>
   map_option u_id (getUser (snd (patch_api_users_id (Some sam) 2
      (noKeys\<lparr>pu_id := Some 99, pu_role := Some ''admin''\<rparr>) demoStore)) 2) = Some 99 \<and>
   map_option u_role (getUser (snd (patch_api_users_id (Some sam) 2
      (noKeys\<lparr>pu_id := Some 99, pu_role := Some ''admin''\<rparr>) demoStore)) 2) = Some ''admin''"
  by (simp add: demoStore_eq patch_api_users_id_def requireAuth_def updateUser_def getUser_def
      mergeUser_def noKeys_def sam_def Let_def)

lemma patch_api_users_id_200:
  "patch_api_users_id reqUser userId reqBody s = (Response 200 b, s') \<Longrightarrow>
   \<exists>U. getUser s userId = Some U \<and> b = UserJson (mergeUser U reqBody) \<and>
       s' = s\<lparr>users := AList.update userId (mergeUser U reqBody) (users s)\<rparr>"
  by (auto simp add: patch_api_users_id_def requireAuth_def updateUser_def Let_def
      split: option.splits sum.splits if_splits)

lemma patch_api_users_id_not_200:
  "patch_api_users_id reqUser userId reqBody s = (r, s') \<Longrightarrow> statusCode r \<noteq> 200 \<Longrightarrow> s' = s"
  by (auto simp add: patch_api_users_id_def requireAuth_def updateUser_def Let_def
      split: option.splits sum.splits if_splits)

text \<open>
  What a successful update stores is the shallow merge of the body over the user. The key
  under which the user is stored and every other user are unchanged.
\<close>

lemma patch_user_merges_body:
  assumes "patch_api_users_id reqUser userId reqBody s = (Response 200 b, s')"
  shows "\<exists>U U'. getUser s userId = Some U \<and> getUser s' userId = Some U' \<and> b = UserJson U' \<and>
     u_id U' = (case pu_id reqBody of None \<Rightarrow> u_id U | Some v \<Rightarrow> v) \<and>
     u_role U' = (case pu_role reqBody of None \<Rightarrow> u_role U | Some v \<Rightarrow> v) \<and>
     map fst (users s') = map fst (users s) \<and>
     (\<forall>k. k \<noteq> userId \<longrightarrow> getUser s' k = getUser s k)"
proof -
  from patch_api_users_id_200[OF assms] obtain U where
    U: "getUser s userId = Some U" and b: "b = UserJson (mergeUser U reqBody)"
    and s': "s' = s\<lparr>users := AList.update userId (mergeUser U reqBody) (users s)\<rparr>"
    by blast
  from U have "userId \<in> set (map fst (users s))"
    by (auto simp: getUser_def dest!: map_of_SomeD intro: rev_image_eqI)
  then have keys: "map fst (users s') = map fst (users s)"
    by (simp add: s' update_keys)
  have "getUser s' userId = Some (mergeUser U reqBody)"
    by (simp add: s' getUser_def update_conv')
  moreover have "\<forall>k. k \<noteq> userId \<longrightarrow> getUser s' k = getUser s k"
    by (simp add: s' getUser_def update_conv')
  moreover have "u_id (mergeUser U reqBody) = (case pu_id reqBody of None \<Rightarrow> u_id U | Some v \<Rightarrow> v)"
    "u_role (mergeUser U reqBody) = (case pu_role reqBody of None \<Rightarrow> u_role U | Some v \<Rightarrow> v)"
    by (simp_all add: mergeUser_def)
  ultimately show ?thesis using U b keys by blast
qed

lemma patch_user_merges_body_example:
  "patch_api_users_id (Some sam) 2 (noKeys\<lparr>pu_fullName := Some ''Samuel Student''\<rparr>) demoStore =
     (Response 200 (UserJson (sam\<lparr>u_fullName := ''Samuel Student''\<rparr>)),
      demoStore\<lparr>users := [(1, erin), (2, sam\<lparr>u_fullName := ''Samuel Student''\<rparr>), (3, tara)]\<rparr>) \<and>
   (\<exists>U U'. getUser demoStore 2 = Some U \<and>
      getUser (demoStore\<lparr>users := [(1, erin), (2, sam\<lparr>u_fullName := ''Samuel Student''\<rparr>), (3, tara)]\<rparr>) 2 = Some U' \<and>
      u_id U' = u_id U \<and> u_role U' = u_role U)"
proof -
  have h: "patch_api_users_id (Some sam) 2 (noKeys\<lparr>pu_fullName := Some ''Samuel Student''\<rparr>) demoStore =
     (Response 200 (UserJson (sam\<lparr>u_fullName := ''Samuel Student''\<rparr>)),
      demoStore\<lparr>users := [(1, erin), (2, sam\<lparr>u_fullName := ''Samuel Student''\<rparr>), (3, tara)]\<rparr>)"
    by (simp add: demoStore_eq patch_api_users_id_def requireAuth_def updateUser_def getUser_def
      mergeUser_def noKeys_def sam_def Let_def)
  from patch_user_merges_body[OF h] show ?thesis
    using h by (auto simp: noKeys_def)
qed

section \<open>Applications stored under their own ids\<close>

lemma applicationsWellFormed_application_id:
  "applicationsWellFormed s \<Longrightarrow> getApplication s k = Some A \<Longrightarrow> a_id A = k"
  by (auto simp: applicationsWellFormed_def getApplication_def dest!: map_of_SomeD)


lemma applicationsWellFormed_acceptedStore: "applicationsWellFormed acceptedStore"
  by (simp add: applicationsWellFormed_def acceptedStore_eq demoStore_eq)

section \<open>Submitting an application for an unknown task\<close>

text \<open>
  Sam applies to task 99, which does not exist: the route answers 201 and application 3 is in
  the store.
\<close>

theorem submit_unknown_task_counterexample:
  "getTask demoStore 99 = None \<and>
   post_api_applications createNotification 10 (Some sam) (applyBody 99 2) demoStore =
     (Response 201 (ApplicationJson
        \<lparr>a_id = 3, a_taskId = 99, a_studentId = 2,
         a_coverLetter = ''I would like to work on this task.'',
         a_status = Some ''applied'', a_appliedAt = 10\<rparr>),
      demoStore\<lparr>currentApplicationId := 4,
        applications := applications demoStore @
          [(3, \<lparr>a_id = 3, a_taskId = 99, a_studentId = 2,
                 a_coverLetter = ''I would like to work on this task.'',
                 a_status = Some ''applied'', a_appliedAt = 10\<rparr>)]\<rparr>)"
  by (simp add: demoStore_eq post_api_applications_def requireRole_def sam_def applyBody_def
      insertApplicationSchema_parse_def getApplicationByStudentAndTask_def createApplication_def
      getTask_def Let_def)

text \<open>
  Claim C4, as the code has it. POST /api/applications never answers 404. When the caller is
  a student, the body parses, the caller has no application for the body's taskId and that
  taskId is not a task of the store, the route answers 201 with the new application, stores
  it under the next application id with the caller as its student, and creates no
  notification.
\<close>

theorem submit_unknown_task_creates_application:
  "statusCode (fst (post_api_applications cn now reqUser reqBody s)) \<noteq> 404 \<and>
   (requireRole [''student''] reqUser = Inr caller \<and>
    insertApplicationSchema_parse reqBody = Some parsed \<and>
    getApplicationByStudentAndTask s (u_id caller) (ia_taskId parsed) = None \<and>
    getTask s (ia_taskId parsed) = None \<longrightarrow>
      (\<exists>newApplication s'.
         post_api_applications cn now reqUser reqBody s =
           (Response 201 (ApplicationJson newApplication), s') \<and>
         getApplication s' (currentApplicationId s) = Some newApplication \<and>
         a_taskId newApplication = ia_taskId parsed \<and>
         a_studentId newApplication = u_id caller \<and>
         a_status newApplication = ia_status parsed \<and>
         notifications s' = notifications s \<and> tasks s' = tasks s))"
proof
  show "statusCode (fst (post_api_applications cn now reqUser reqBody s)) \<noteq> 404"
    by (auto simp: post_api_applications_def requireRole_def Let_def
        split: option.splits sum.splits prod.splits)
  show "requireRole [''student''] reqUser = Inr caller \<and>
    insertApplicationSchema_parse reqBody = Some parsed \<and>
    getApplicationByStudentAndTask s (u_id caller) (ia_taskId parsed) = None \<and>
    getTask s (ia_taskId parsed) = None \<longrightarrow>
      (\<exists>newApplication s'.
         post_api_applications cn now reqUser reqBody s =
           (Response 201 (ApplicationJson newApplication), s') \<and>
         getApplication s' (currentApplicationId s) = Some newApplication \<and>
         a_taskId newApplication = ia_taskId parsed \<and>
         a_studentId newApplication = u_id caller \<and>
         a_status newApplication = ia_status parsed \<and>
         notifications s' = notifications s \<and> tasks s' = tasks s)"
    by (simp add: post_api_applications_def createApplication_def getTask_def getApplication_def
        update_conv' Let_def)
qed

theorem submit_unknown_task_creates_application_witness:
  "requireRole [''student''] (Some sam) = Inr sam \<and>
   insertApplicationSchema_parse (applyBody 99 2) =
     Some \<lparr>ia_taskId = 99, ia_studentId = 2,
           ia_coverLetter = ''I would like to work on this task.'', ia_status = Some ''applied''\<rparr> \<and>
   getApplicationByStudentAndTask demoStore (u_id sam) 99 = None \<and>
   getTask demoStore 99 = None \<and>
   (\<exists>newApplication s'.
      post_api_applications createNotification 10 (Some sam) (applyBody 99 2) demoStore =
        (Response 201 (ApplicationJson newApplication), s') \<and>
      getApplication s' 3 = Some newApplication \<and> a_taskId newApplication = 99 \<and>
      a_studentId newApplication = 2)"
proof -
  let ?parsed = "\<lparr>ia_taskId = 99, ia_studentId = 2,
           ia_coverLetter = ''I would like to work on this task.'', ia_status = Some ''applied''\<rparr>"
  have h: "requireRole [''student''] (Some sam) = Inr sam"
    "insertApplicationSchema_parse (applyBody 99 2) = Some ?parsed"
    "getApplicationByStudentAndTask demoStore (u_id sam) (ia_taskId ?parsed) = None"
    "getTask demoStore (ia_taskId ?parsed) = None"
    by (simp_all add: requireRole_def sam_def insertApplicationSchema_parse_def applyBody_def
        getApplicationByStudentAndTask_def getTask_def demoStore_eq)
  have c: "currentApplicationId demoStore = 3" "u_id sam = 2" by (simp_all add: demoStore_eq sam_def)
  from h c submit_unknown_task_creates_application[of createNotification 10 "Some sam"
      "applyBody 99 2" demoStore sam ?parsed]
  show ?thesis by auto
qed

section \<open>Payments and the task's status\<close>

text \<open>
  The legacy route POST /api/payments checks the task's status: for the task's employer or
  an admin, a body that parses and an application whose task is not \<open>in-progress\<close>, it
  answers 400 and leaves the store as it was.
\<close>

lemma post_api_payments_requires_in_progress:
  "requireRole [''employer'', ''admin''] reqUser = Inr caller \<Longrightarrow>
   insertPaymentSchema_parse reqBody = Some paymentData \<Longrightarrow>
   getApplication s (ip_applicationId paymentData) = Some A \<Longrightarrow>
   getTask s (a_taskId A) = Some T \<Longrightarrow>
   t_employerId T = u_id caller \<or> u_role caller = ''admin'' \<Longrightarrow>
   t_status T \<noteq> Some ''in-progress'' \<Longrightarrow>
   post_api_payments cn now reqUser reqBody s =
     (Response 400 (Message ''Cannot mark payment for a task that is not in progress''), s)"
  by (auto simp: post_api_payments_def)

text \<open>
  Claim C2 at a failing input. Task 1 of the example store is \<open>open\<close>. The primary route
  POST /api/payment-confirm has no such check: Erin's confirmation for application 1 is
  answered 200, payment 1 is created with status \<open>completed\<close>, and task 1 becomes
  \<open>completed\<close>.
\<close>

theorem payment_confirm_ignores_task_status:
  "map_option t_status (getTask demoStore 1) = Some (Some ''open'') \<and>
   post_api_payment_confirm createNotification None 20 (Some erin) (simulatedBody 1 5000) demoStore =
     (Response 200 (PaymentConfirmed
        \<lparr>p_id = 1, p_applicationId = 1, p_amount = Some (BodyAmount 5000),
         p_status = Some ''completed'', p_createdAt = 20\<rparr>),
      demoStore\<lparr>
        tasks := [(1, \<lparr>t_id = 1, t_title = ''Build a website'', t_description = ''A landing page'',
             t_budget = 5000, t_deadline = 100, t_requiredSkills = [''JavaScript''],
             t_employerId = 1, t_status = Some ''completed'', t_createdAt = 4\<rparr>)],
        payments := [(1, \<lparr>p_id = 1, p_applicationId = 1, p_amount = Some (BodyAmount 5000),
             p_status = Some ''completed'', p_createdAt = 20\<rparr>)],
        currentPaymentId := 2,
        notifications := notifications demoStore @
          [(3, \<lparr>n_id = 3, n_userId = 2, n_type = ''payment_completed'',
                 n_content = PaymentReceived (Some (BodyAmount 5000)) ''Build a website'',
                 n_isRead = False, n_createdAt = 20,
                 n_metadata = [(''taskId'', MNum 1), (''applicationId'', MNum 1),
                   (''paymentId'', MNum 1), (''referenceId'', MStr ''simulated-payment'')]\<rparr>)],
        currentNotificationId := 4\<rparr>)"
  by (simp add: demoStore_eq post_api_payment_confirm_def requireAuth_def simulatedBody_def
      getApplication_def getTask_def stripeVerification_def createPayment_def updateTask_def
      mergeTask_def statusOnly_def createNotification_def Let_def)

section \<open>Who may confirm a payment\<close>




section \<open>One application per student and task\<close>

lemma length_filter_update_le:
  "length (filter P (map snd (AList.update k v al))) \<le>
     length (filter P (map snd al)) + (if P v then 1 else 0)"
  by (induction al) auto

lemma length_filter_update_same:
  "map_of al k = Some x \<Longrightarrow> P v = P x \<Longrightarrow>
   length (filter P (map snd (AList.update k v al))) = length (filter P (map snd al))"
  by (induction al) (auto split: if_splits)

lemma in_values_update: "v \<in> set (map snd (AList.update k v al))"
  by (induction al) auto

lemma uniqueApplications_pairCounts:
  "uniqueApplications s = (\<forall>studentId taskId. pairCounts s studentId taskId \<le> 1)"
  by (simp add: uniqueApplications_def pairCounts_def)

lemma pairCounts_cong: "applications s' = applications s \<Longrightarrow> pairCounts s' = pairCounts s"
  by (simp add: pairCounts_def applicationsOf_def fun_eq_iff)

lemma pairCounts_createNotification [simp]:
  "pairCounts (snd (createNotification now ins s)) = pairCounts s"
  by (rule pairCounts_cong) (simp add: createNotification_def Let_def)

lemma pairCounts_updateTask [simp]: "pairCounts (snd (updateTask i p s)) = pairCounts s"
  by (rule pairCounts_cong) (simp add: updateTask_def Let_def split: option.splits)

lemma pairCounts_createTask [simp]: "pairCounts (snd (createTask now it s)) = pairCounts s"
  by (rule pairCounts_cong) (simp add: createTask_def Let_def)

lemma pairCounts_updateUser [simp]: "pairCounts (snd (updateUser i p s)) = pairCounts s"
  by (rule pairCounts_cong) (simp add: updateUser_def Let_def split: option.splits)

lemma pairCounts_createPayment [simp]: "pairCounts (snd (createPayment now ip s)) = pairCounts s"
  by (rule pairCounts_cong) (simp add: createPayment_def Let_def)

lemma pairCounts_awardBadgeToUser [simp]:
  "pairCounts (snd (awardBadgeToUser now iub s)) = pairCounts s"
  by (rule pairCounts_cong) (simp add: awardBadgeToUser_def Let_def split: option.splits)

lemma pairCounts_updateApplicationStatus [simp]:
  "pairCounts (snd (updateApplicationStatus i st s)) = pairCounts s"
proof (cases "getApplication s i")
  case None
  then show ?thesis by (simp add: updateApplicationStatus_def)
next
  case (Some x)
  then have m: "map_of (applications s) i = Some x" by (simp add: getApplication_def)
  have "length (filter (\<lambda>a. a_studentId a = st' \<and> a_taskId a = t')
            (map snd (AList.update i (x\<lparr>a_status := Some st\<rparr>) (applications s)))) =
        length (filter (\<lambda>a. a_studentId a = st' \<and> a_taskId a = t') (map snd (applications s)))"
    for st' t'
    by (rule length_filter_update_same[OF m]) simp
  then show ?thesis
    using Some
    by (simp add: updateApplicationStatus_def Let_def pairCounts_def applicationsOf_def fun_eq_iff
        del: filter_map)
qed

lemma createNotification_isr [simp]: "isl (fst (createNotification now ins s)) = False"
  by (simp add: createNotification_def Let_def)

lemma pairCounts_rejectOthers [simp]:
  "pairCounts (snd (rejectOthers createNotification now task applicationId xs s)) = pairCounts s"
  by (induction xs arbitrary: s) (simp_all add: case_prod_beta sum.case_eq_if)

lemma pairCounts_patch_api_applications_id_status:
  "pairCounts (snd (patch_api_applications_id_status createNotification now reqUser applicationId
      status s)) = pairCounts s"
  by (simp add: patch_api_applications_id_status_def case_prod_beta sum.case_eq_if
      option.case_eq_if)

lemma pairCounts_patch_api_users_id:
  "pairCounts (snd (patch_api_users_id reqUser userId reqBody s)) = pairCounts s"
  by (simp add: patch_api_users_id_def case_prod_beta sum.case_eq_if option.case_eq_if)

lemma pairCounts_post_api_tasks:
  "pairCounts (snd (post_api_tasks now reqUser reqBody s)) = pairCounts s"
  by (simp add: post_api_tasks_def case_prod_beta sum.case_eq_if option.case_eq_if)

lemma pairCounts_patch_api_tasks_id:
  "pairCounts (snd (patch_api_tasks_id reqUser taskId reqBody s)) = pairCounts s"
  by (simp add: patch_api_tasks_id_def case_prod_beta sum.case_eq_if option.case_eq_if)

lemma pairCounts_post_api_payments:
  "pairCounts (snd (post_api_payments createNotification now reqUser reqBody s)) = pairCounts s"
  by (simp add: post_api_payments_def case_prod_beta sum.case_eq_if option.case_eq_if)

lemma pairCounts_post_api_payment_confirm:
  "pairCounts (snd (post_api_payment_confirm createNotification stripe now reqUser reqBody s)) =
     pairCounts s"
  by (simp add: post_api_payment_confirm_def case_prod_beta sum.case_eq_if option.case_eq_if
      split: verification.splits)

lemma pairCounts_post_api_badges_award:
  "pairCounts (snd (post_api_badges_award createNotification now reqUser reqBody s)) = pairCounts s"
  by (simp add: post_api_badges_award_def case_prod_beta sum.case_eq_if option.case_eq_if)

lemma getApplicationByStudentAndTask_None:
  "getApplicationByStudentAndTask s studentId taskId = None \<longleftrightarrow>
     applicationsOf s studentId taskId = []"
  by (simp add: getApplicationByStudentAndTask_def applicationsOf_def find_None_filter)

lemma uniqueApplications_createApplication:
  assumes "uniqueApplications s" "applicationsOf s (ia_studentId ia) (ia_taskId ia) = []"
  shows "uniqueApplications (snd (createApplication now ia s))"
proof -
  let ?new = "\<lparr>a_id = currentApplicationId s, a_taskId = ia_taskId ia,
      a_studentId = ia_studentId ia, a_coverLetter = ia_coverLetter ia, a_status = ia_status ia,
      a_appliedAt = now\<rparr>"
  have "length (filter (\<lambda>a. a_studentId a = st \<and> a_taskId a = t)
            (map snd (AList.update (currentApplicationId s) ?new (applications s)))) \<le> 1" for st t
  proof -
    let ?P = "\<lambda>a. a_studentId a = st \<and> a_taskId a = t"
    have le: "length (filter ?P (map snd (AList.update (currentApplicationId s) ?new (applications s))))
        \<le> length (filter ?P (map snd (applications s))) + (if ?P ?new then 1 else 0)"
      by (rule length_filter_update_le)
    have old: "length (filter ?P (map snd (applications s))) \<le> 1"
      using assms(1)
      by (simp add: uniqueApplications_def applicationsOf_def del: filter_map length_filter_map)
    show ?thesis
    proof (cases "?P ?new")
      case True
      then have "filter ?P (map snd (applications s)) = []"
        using assms(2) by (simp add: applicationsOf_def del: filter_map length_filter_map)
      with le True show ?thesis by (simp del: filter_map length_filter_map)
    next
      case False
      with le old show ?thesis by (auto simp del: filter_map length_filter_map split: if_splits)
    qed
  qed
  then show ?thesis
    by (simp add: uniqueApplications_def applicationsOf_def createApplication_def Let_def
        del: filter_map length_filter_map)
qed

lemma uniqueApplications_cong:
  "pairCounts s' = pairCounts s \<Longrightarrow> uniqueApplications s' = uniqueApplications s"
  by (simp add: uniqueApplications_pairCounts)

lemma uniqueApplications_createNotification [simp]:
  "uniqueApplications (snd (createNotification now ins s)) = uniqueApplications s"
  by (rule uniqueApplications_cong) simp

lemma uniqueApplications_post_api_applications:
  assumes "uniqueApplications s"
  shows "uniqueApplications (snd (post_api_applications createNotification now reqUser reqBody s))"
proof -
  have c: "uniqueApplications (snd (createApplication now (parsed\<lparr>ia_studentId := u_id caller\<rparr>) s))"
    if "getApplicationByStudentAndTask s (u_id caller) (ia_taskId parsed) = None" for parsed caller
    using that assms
    by (intro uniqueApplications_createApplication)
       (simp_all add: getApplicationByStudentAndTask_None)
  show ?thesis
    using assms
    by (simp add: post_api_applications_def case_prod_beta sum.case_eq_if option.case_eq_if c)
qed

lemma uniqueApplications_handle:
  "uniqueApplications s \<Longrightarrow> uniqueApplications (snd (handle r s))"
  by (cases r)
     (simp_all add: uniqueApplications_post_api_applications
        uniqueApplications_cong[OF pairCounts_patch_api_applications_id_status]
        uniqueApplications_cong[OF pairCounts_patch_api_users_id]
        uniqueApplications_cong[OF pairCounts_post_api_tasks]
        uniqueApplications_cong[OF pairCounts_patch_api_tasks_id]
        uniqueApplications_cong[OF pairCounts_post_api_payments]
        uniqueApplications_cong[OF pairCounts_post_api_payment_confirm]
        uniqueApplications_cong[OF pairCounts_post_api_badges_award])

lemma uniqueApplications_run:
  "uniqueApplications s \<Longrightarrow> uniqueApplications (run requests s)"
  by (induction requests arbitrary: s) (simp_all add: uniqueApplications_handle)

lemma uniqueApplications_MemStorage: "uniqueApplications MemStorage"
  by (simp add: uniqueApplications_def applicationsOf_def MemStorage_def emptyStorage_def
      createBadge_def Let_def)

lemma post_api_applications_duplicate:
  assumes "requireRole [''student''] reqUser = Inr caller"
    "insertApplicationSchema_parse reqBody = Some parsed"
    "applicationsOf s (u_id caller) (ia_taskId parsed) \<noteq> []"
  shows "post_api_applications cn now reqUser reqBody s =
     (Response 400 (Message ''You have already applied to this task''), s)"
proof -
  from assms(3) obtain e where
    "getApplicationByStudentAndTask s (u_id caller) (ia_taskId parsed) = Some e"
    by (cases "getApplicationByStudentAndTask s (u_id caller) (ia_taskId parsed)")
       (auto simp: getApplicationByStudentAndTask_None)
  with assms(1,2) show ?thesis by (simp add: post_api_applications_def)
qed

lemma post_api_applications_201:
  assumes "post_api_applications createNotification now reqUser reqBody s = (Response 201 b, s')"
  shows "\<exists>caller parsed. requireRole [''student''] reqUser = Inr caller \<and>
     insertApplicationSchema_parse reqBody = Some parsed \<and>
     applicationsOf s' (u_id caller) (ia_taskId parsed) \<noteq> []"
proof -
  from assms obtain caller parsed where
    c: "requireRole [''student''] reqUser = Inr caller"
    and p: "insertApplicationSchema_parse reqBody = Some parsed"
    and n: "getApplicationByStudentAndTask s (u_id caller) (ia_taskId parsed) = None"
    by (auto simp: post_api_applications_def requireRole_def
        split: option.splits sum.splits if_splits)
  let ?new = "\<lparr>a_id = currentApplicationId s, a_taskId = ia_taskId parsed,
      a_studentId = u_id caller, a_coverLetter = ia_coverLetter parsed,
      a_status = ia_status parsed, a_appliedAt = now\<rparr>"
  have apps: "applications s' = AList.update (currentApplicationId s) ?new (applications s)"
    using assms c p n
    by (auto simp: post_api_applications_def createApplication_def createNotification_def Let_def
        split: option.splits)
  have "?new \<in> set (applicationsOf s' (u_id caller) (ia_taskId parsed))"
    using in_values_update[of ?new "currentApplicationId s" "applications s"]
    by (simp add: applicationsOf_def apps del: filter_map)
  then have "applicationsOf s' (u_id caller) (ia_taskId parsed) \<noteq> []" by auto
  with c p show ?thesis by blast
qed

text \<open>
  \<^const>\<open>uniqueApplications\<close> says that the (studentId, taskId) pairs of the stored
  applications are pairwise different.
\<close>

lemma at_most_one_iff_distinct:
  "(\<forall>p. length (filter (\<lambda>a. f a = p) xs) \<le> 1) \<longleftrightarrow> distinct (map f xs)"
proof (induction xs)
  case Nil
  then show ?case by simp
next
  case (Cons x xs)
  have "(\<forall>p. length (filter (\<lambda>a. f a = p) (x # xs)) \<le> 1) \<longleftrightarrow>
      (\<forall>p. length (filter (\<lambda>a. f a = p) xs) \<le> 1) \<and> filter (\<lambda>a. f a = f x) xs = []"
    (is "?L \<longleftrightarrow> ?A \<and> ?B")
  proof
    assume L: ?L
    have ?A
    proof
      fix p
      have "length (filter (\<lambda>a. f a = p) xs) \<le> length (filter (\<lambda>a. f a = p) (x # xs))"
        by simp
      also have "\<dots> \<le> 1" using L by blast
      finally show "length (filter (\<lambda>a. f a = p) xs) \<le> 1" .
    qed
    moreover have ?B
    proof -
      have "length (filter (\<lambda>a. f a = f x) (x # xs)) \<le> 1" using L by blast
      then show ?thesis by simp
    qed
    ultimately show "?A \<and> ?B" ..
  next
    assume AB: "?A \<and> ?B"
    show ?L
    proof
      fix p
      show "length (filter (\<lambda>a. f a = p) (x # xs)) \<le> 1"
      proof (cases "f x = p")
        case True
        with AB have "filter (\<lambda>a. f a = p) xs = []" by blast
        with True show ?thesis by simp
      next
        case False
        with AB show ?thesis by simp
      qed
    qed
  qed
  also have "\<dots> \<longleftrightarrow> distinct (map f xs) \<and> f x \<notin> f ` set xs"
    unfolding Cons.IH by (simp add: filter_empty_conv image_iff) metis
  finally have E: "(\<forall>p. length (filter (\<lambda>a. f a = p) (x # xs)) \<le> 1) \<longleftrightarrow>
      distinct (map f xs) \<and> f x \<notin> f ` set xs" .
  show ?case unfolding E by auto
qed

lemma uniqueApplications_distinct:
  "uniqueApplications s \<longleftrightarrow>
     distinct (map (\<lambda>a. (a_studentId a, a_taskId a)) (map snd (applications s)))"
proof -
  have "length (applicationsOf s st t) =
      length (filter (\<lambda>a. (a_studentId a, a_taskId a) = (st, t)) (map snd (applications s)))"
    for st t
    by (simp add: applicationsOf_def del: filter_map length_filter_map)
  then have "uniqueApplications s \<longleftrightarrow>
      (\<forall>p. length (filter (\<lambda>a. (a_studentId a, a_taskId a) = p) (map snd (applications s))) \<le> 1)"
    unfolding uniqueApplications_def by (simp only: split_paired_All)
  then show ?thesis
    by (simp only: at_most_one_iff_distinct)
qed

text \<open>
  Claim C3. For every student and task the store holds at most one application: this holds
  of the constructor's store and every request of the server keeps it. A submission by a
  student who already has an application for the body's task is answered 400 "You have
  already applied to this task" and leaves the store as it was; in particular a second
  submission for the same task, right after a first one that was answered 201, is.
\<close>

theorem one_application_per_student_and_task:
  "uniqueApplications MemStorage \<and>
   (uniqueApplications s \<longrightarrow> uniqueApplications (run requests s)) \<and>
   (requireRole [''student''] reqUser = Inr caller \<and>
    insertApplicationSchema_parse reqBody = Some parsed \<and>
    applicationsOf s (u_id caller) (ia_taskId parsed) \<noteq> [] \<longrightarrow>
      post_api_applications cn now reqUser reqBody s =
        (Response 400 (Message ''You have already applied to this task''), s)) \<and>
   (post_api_applications createNotification now0 reqUser0 reqBody0 s0 = (Response 201 b0, s1) \<and>
    insertApplicationSchema_parse reqBody0 = Some parsed0 \<and>
    insertApplicationSchema_parse reqBody1 = Some parsed1 \<and>
    ia_taskId parsed1 = ia_taskId parsed0 \<longrightarrow>
      post_api_applications cn1 now1 reqUser0 reqBody1 s1 =
        (Response 400 (Message ''You have already applied to this task''), s1))"
proof (intro conjI impI)
  show "uniqueApplications MemStorage" by (rule uniqueApplications_MemStorage)
  show "uniqueApplications (run requests s)" if "uniqueApplications s"
    using that by (rule uniqueApplications_run)
  show "post_api_applications cn now reqUser reqBody s =
        (Response 400 (Message ''You have already applied to this task''), s)"
    if "requireRole [''student''] reqUser = Inr caller \<and>
        insertApplicationSchema_parse reqBody = Some parsed \<and>
        applicationsOf s (u_id caller) (ia_taskId parsed) \<noteq> []"
    using that by (auto intro: post_api_applications_duplicate)
  show "post_api_applications cn1 now1 reqUser0 reqBody1 s1 =
        (Response 400 (Message ''You have already applied to this task''), s1)"
    if h: "post_api_applications createNotification now0 reqUser0 reqBody0 s0 = (Response 201 b0, s1) \<and>
        insertApplicationSchema_parse reqBody0 = Some parsed0 \<and>
        insertApplicationSchema_parse reqBody1 = Some parsed1 \<and>
        ia_taskId parsed1 = ia_taskId parsed0"
  proof -
    from h post_api_applications_201[of now0 reqUser0 reqBody0 s0 b0 s1] obtain caller' where
      "requireRole [''student''] reqUser0 = Inr caller'"
      "applicationsOf s1 (u_id caller') (ia_taskId parsed1) \<noteq> []"
      by auto
    with h show ?thesis by (auto intro: post_api_applications_duplicate)
  qed
qed

theorem one_application_per_student_and_task_witness:
  "uniqueApplications demoStore \<and>
   uniqueApplications
     (run [PostApplication 10 (Some sam) (applyBody 1 2),
           PatchApplicationStatus 11 (Some erin) 1 ''accepted'',
           PostApplication 12 (Some tara) (applyBody 7 3)] demoStore) \<and>
   applicationsOf demoStore 2 1 \<noteq> [] \<and>
   post_api_applications createNotification 10 (Some sam) (applyBody 1 2) demoStore =
     (Response 400 (Message ''You have already applied to this task''), demoStore) \<and>
   applicationsOf postedStore 2 1 = [] \<and>
   statusCode (fst (post_api_applications createNotification 5 (Some sam) (applyBody 1 2)
       postedStore)) = 201 \<and>
   post_api_applications createNotification 6 (Some sam) (applyBody 1 2)
       (snd (post_api_applications createNotification 5 (Some sam) (applyBody 1 2) postedStore)) =
     (Response 400 (Message ''You have already applied to this task''),
      snd (post_api_applications createNotification 5 (Some sam) (applyBody 1 2) postedStore))"
proof -
  let ?parsed = "\<lparr>ia_taskId = 1, ia_studentId = 2,
           ia_coverLetter = ''I would like to work on this task.'', ia_status = Some ''applied''\<rparr>"
  let ?A1 = "\<lparr>a_id = 1, a_taskId = 1, a_studentId = 2,
            a_coverLetter = ''I would like to work on this task.'',
            a_status = Some ''applied'', a_appliedAt = 5\<rparr>"
  let ?s1 = "snd (post_api_applications createNotification 5 (Some sam) (applyBody 1 2) postedStore)"
  have u: "uniqueApplications demoStore"
    by (auto simp: uniqueApplications_def applicationsOf_def demoStore_eq)
  have r: "requireRole [''student''] (Some sam) = Inr sam"
    and p: "insertApplicationSchema_parse (applyBody 1 2) = Some ?parsed"
    and d: "applicationsOf demoStore (u_id sam) (ia_taskId ?parsed) \<noteq> []"
    and e: "applicationsOf postedStore 2 1 = []"
    by (simp_all add: requireRole_def sam_def insertApplicationSchema_parse_def applyBody_def
        applicationsOf_def demoStore_eq postedStore_eq)
  have f1: "fst (post_api_applications createNotification 5 (Some sam) (applyBody 1 2) postedStore) =
      Response 201 (ApplicationJson ?A1)"
    by (simp add: postedStore_eq post_api_applications_def requireRole_def sam_def applyBody_def
        insertApplicationSchema_parse_def getApplicationByStudentAndTask_def createApplication_def
        getTask_def createNotification_def Let_def)
  then have f: "post_api_applications createNotification 5 (Some sam) (applyBody 1 2) postedStore =
      (Response 201 (ApplicationJson ?A1), ?s1)"
    by (metis prod.collapse)
  note w = one_application_per_student_and_task[of demoStore
      "[PostApplication 10 (Some sam) (applyBody 1 2),
        PatchApplicationStatus 11 (Some erin) 1 ''accepted'',
        PostApplication 12 (Some tara) (applyBody 7 3)]"
      "Some sam" sam "applyBody 1 2" ?parsed createNotification 10
      5 "Some sam" "applyBody 1 2" postedStore "ApplicationJson ?A1" ?s1 ?parsed
      "applyBody 1 2" ?parsed createNotification 6]
  from w u have c2: "uniqueApplications
     (run [PostApplication 10 (Some sam) (applyBody 1 2),
           PatchApplicationStatus 11 (Some erin) 1 ''accepted'',
           PostApplication 12 (Some tara) (applyBody 7 3)] demoStore)"
    by blast
  from w r p d have c3: "post_api_applications createNotification 10 (Some sam) (applyBody 1 2)
      demoStore = (Response 400 (Message ''You have already applied to this task''), demoStore)"
    by blast
  from w f p have c4: "post_api_applications createNotification 6 (Some sam) (applyBody 1 2) ?s1 =
      (Response 400 (Message ''You have already applied to this task''), ?s1)"
    by blast
  have d': "applicationsOf demoStore 2 1 \<noteq> []"
    using d by (simp add: sam_def)
  have f2: "statusCode (fst (post_api_applications createNotification 5 (Some sam) (applyBody 1 2)
       postedStore)) = 201"
    by (simp only: f1 response.sel)
  from u c2 d' c3 e f2 c4 show ?thesis by blast
qed

section \<open>The relay\<close>

lemma send_message_emitted:
  "emitted (send_message socketId (Some \<lparr>sd_applicationId = applicationId, sd_message = msg\<rparr>) r) =
     emitted r @
     map (\<lambda>member. (member, receive_message msg))
       (filter (\<lambda>member. member \<noteq> socketId) (roomMembers r (roomName applicationId))) @
     [(socketId, case msg of None \<Rightarrow> message_error | Some m \<Rightarrow> message_sent (m_id m))]"
  by (simp add: send_message_def socket_to_emit_def socket_emit_def Let_def roomMembers_def
      split: option.splits)

lemma send_message_rooms:
  "rooms (send_message socketId data r) = rooms r"
  by (simp add: send_message_def socket_to_emit_def socket_emit_def Let_def split: option.splits)

lemma roomMembers_join_application:
  "set (roomMembers (join_application socketId applicationId r) room) =
     (if room = roomName applicationId then insert socketId (set (roomMembers r room))
      else set (roomMembers r room))"
  by (auto simp: join_application_def socket_join_def socket_emit_def roomMembers_def update_conv'
      split: option.splits)

lemma roomMembers_socket_disconnect:
  "roomMembers (socket_disconnect socketId r) room =
     filter (\<lambda>member. member \<noteq> socketId) (roomMembers r room)"
proof -
  have "map_of (map (\<lambda>(room, members). (room, filter (\<lambda>member. member \<noteq> socketId) members)) al) room =
      map_option (filter (\<lambda>member. member \<noteq> socketId)) (map_of al room)" for al :: "(string \<times> string list) list"
    by (induction al) auto
  then show ?thesis
    by (simp add: socket_disconnect_def roomMembers_def split: option.splits)
qed

lemma recipients_send_message:
  "recipients r
      (send_message socketId (Some \<lparr>sd_applicationId = applicationId, sd_message = msg\<rparr>) r)
      (receive_message msg) =
     filter (\<lambda>member. member \<noteq> socketId) (roomMembers r (roomName applicationId))"
  by (simp add: recipients_def send_message_emitted o_def split: option.splits)

text \<open>
  Claim C7. When a socket publishes a chat message for an application, the sockets that
  are sent \<open>receive_message\<close> with that message are the members of the application's room
  at that moment, in the room's order, without the sender: every other member gets it, the
  sender does not (whether or not the sender is itself a member), and the rooms are
  unchanged.
\<close>

theorem send_message_reaches_other_members:
  "recipients r
      (relayStep (SendMessage socketId (Some \<lparr>sd_applicationId = applicationId, sd_message = msg\<rparr>)) r)
      (receive_message msg) =
     filter (\<lambda>member. member \<noteq> socketId) (roomMembers r (roomName applicationId)) \<and>
   set (recipients r
      (relayStep (SendMessage socketId (Some \<lparr>sd_applicationId = applicationId, sd_message = msg\<rparr>)) r)
      (receive_message msg)) =
     set (roomMembers r (roomName applicationId)) - {socketId} \<and>
   rooms (relayStep (SendMessage socketId (Some \<lparr>sd_applicationId = applicationId, sd_message = msg\<rparr>)) r) =
     rooms r"
  using recipients_send_message[of r socketId applicationId msg]
  by (auto simp: send_message_rooms)


text \<open>Three sockets, two of them in the room of application 7: only the second is reached.\<close>

lemma relay_example:
  "recipients (relayRun [Connection ''s1'', Connection ''s2'', Connection ''s3'',
                  JoinApplication ''s1'' 7, JoinApplication ''s2'' 7, JoinApplication ''s3'' 8] emptyRelay)
     (relayRun [Connection ''s1'', Connection ''s2'', Connection ''s3'',
                  JoinApplication ''s1'' 7, JoinApplication ''s2'' 7, JoinApplication ''s3'' 8,
                  SendMessage ''s1'' (Some \<lparr>sd_applicationId = 7, sd_message = None\<rparr>)] emptyRelay)
     (receive_message None) = [''s2'']"
  by (simp add: recipients_def emptyRelay_def socket_connect_def socket_join_def roomMembers_def
      join_application_def socket_emit_def send_message_def socket_to_emit_def roomName_def
      numberToString_def digitChar_def Let_def)

text \<open>
  Along every history of the relay a room lists each socket once, so each member is sent
  one copy; and the rooms of two applications are two rooms, because the decimal text of
  an integer determines it.
\<close>

lemma roomsDistinct_members: "roomsDistinct r \<Longrightarrow> distinct (roomMembers r room)"
  by (auto simp: roomsDistinct_def roomMembers_def split: option.splits dest!: map_of_SomeD)

lemma roomsDistinct_socket_join:
  assumes "roomsDistinct r"
  shows "roomsDistinct (socket_join socketId room r)"
proof -
  let ?ms = "if socketId \<in> set (roomMembers r room) then roomMembers r room
             else roomMembers r room @ [socketId]"
  have d: "distinct ?ms" using roomsDistinct_members[OF assms, of room] by simp
  have "distinct ms" if "(k, ms) \<in> set (AList.update room ?ms (rooms r))" for k ms
    using in_set_updateD[OF that] d assms by (auto simp: roomsDistinct_def)
  then show ?thesis by (auto simp: roomsDistinct_def socket_join_def)
qed

lemma roomsDistinct_relayStep: "roomsDistinct r \<Longrightarrow> roomsDistinct (relayStep e r)"
proof (cases e)
  case (Connection x1)
  assume "roomsDistinct r"
  then show ?thesis using Connection by (simp add: socket_connect_def roomsDistinct_socket_join)
next
  case (JoinApplication x21 x22)
  assume "roomsDistinct r"
  then have "roomsDistinct (socket_join x21 (roomName x22) r)" by (rule roomsDistinct_socket_join)
  then show ?thesis using JoinApplication
    by (simp add: join_application_def socket_emit_def roomsDistinct_def)
next
  case (SendMessage x31 x32)
  assume "roomsDistinct r"
  then show ?thesis using SendMessage by (simp add: roomsDistinct_def send_message_rooms)
next
  case (Ping x41 x42)
  assume "roomsDistinct r"
  then show ?thesis using Ping by (simp add: roomsDistinct_def ping_def socket_emit_def)
next
  case (Disconnect x5)
  assume "roomsDistinct r"
  then show ?thesis using Disconnect by (auto simp: roomsDistinct_def socket_disconnect_def)
qed

lemma roomsDistinct_relayRun: "roomsDistinct r \<Longrightarrow> roomsDistinct (relayRun es r)"
  by (induction es arbitrary: r) (simp_all add: roomsDistinct_relayStep)

lemma roomsDistinct_emptyRelay: "roomsDistinct emptyRelay"
  by (simp add: roomsDistinct_def emptyRelay_def)

lemma each_member_receives_once:
  "distinct (recipients (relayRun es emptyRelay)
      (relayStep (SendMessage socketId (Some \<lparr>sd_applicationId = applicationId, sd_message = msg\<rparr>))
         (relayRun es emptyRelay))
      (receive_message msg))"
  using recipients_send_message[of "relayRun es emptyRelay" socketId applicationId msg]
    roomsDistinct_members[OF roomsDistinct_relayRun[OF roomsDistinct_emptyRelay], of es "roomName applicationId"]
  by simp

lemma digitChar_inj: "d < 10 \<Longrightarrow> d' < 10 \<Longrightarrow> digitChar d = digitChar d' \<Longrightarrow> d = d'"
  unfolding digitChar_def by (simp split: if_splits; presburger)

lemma natToString_not_Nil: "natToString n \<noteq> []"
  by (subst natToString.simps) simp

lemma natToString_inj: "natToString m = natToString n \<Longrightarrow> m = n"
proof (induction n arbitrary: m rule: natToString.induct)
  case (1 n)
  show ?case
  proof (cases "n < 10")
    case True
    then have n: "natToString n = [digitChar n]" by (subst natToString.simps) simp
    have "m < 10"
    proof (rule ccontr)
      assume "\<not> m < 10"
      then have "natToString m = natToString (m div 10) @ [digitChar (m mod 10)]"
        by (subst natToString.simps) simp
      with "1.prems" n natToString_not_Nil[of "m div 10"] show False by simp
    qed
    then have "natToString m = [digitChar m]" by (subst natToString.simps) simp
    with "1.prems" n True \<open>m < 10\<close> show ?thesis by (simp add: digitChar_inj)
  next
    case False
    then have n: "natToString n = natToString (n div 10) @ [digitChar (n mod 10)]"
      by (subst natToString.simps) simp
    have "\<not> m < 10"
    proof
      assume "m < 10"
      then have "natToString m = [digitChar m]" by (subst natToString.simps) simp
      with "1.prems" n natToString_not_Nil[of "n div 10"] show False by simp
    qed
    then have m: "natToString m = natToString (m div 10) @ [digitChar (m mod 10)]"
      by (subst natToString.simps) simp
    from "1.prems" m n have a: "natToString (m div 10) = natToString (n div 10)"
      and b: "digitChar (m mod 10) = digitChar (n mod 10)" by simp_all
    from "1.IH"[OF False a] have "m div 10 = n div 10" .
    moreover from b have "m mod 10 = n mod 10" by (simp add: digitChar_inj)
    ultimately show ?thesis by (metis div_mult_mod_eq)
  qed
qed

lemma digitChar_not_minus: "digitChar d \<noteq> CHR ''-''"
  by (simp add: digitChar_def)

lemma hd_natToString: "hd (natToString n) \<noteq> CHR ''-''"
proof (induction n rule: natToString.induct)
  case (1 n)
  show ?case
  proof (cases "n < 10")
    case True
    then have "natToString n = [digitChar n]" by (subst natToString.simps) simp
    then show ?thesis by (simp add: digitChar_not_minus)
  next
    case False
    then have "natToString n = natToString (n div 10) @ [digitChar (n mod 10)]"
      by (subst natToString.simps) simp
    then show ?thesis using "1.IH"[OF False] natToString_not_Nil[of "n div 10"] by simp
  qed
qed

lemma numberToString_inj: "numberToString a = numberToString b \<Longrightarrow> a = b"
proof -
  assume e: "numberToString a = numberToString b"
  have neg: "hd (numberToString i) = CHR ''-'' \<longleftrightarrow> i < 0" for i
    using hd_natToString[of "nat i"] by (simp add: numberToString_def)
  from e have s: "a < 0 \<longleftrightarrow> b < 0" using neg[of a] neg[of b] by simp
  show "a = b"
  proof (cases "a < 0")
    case True
    with s e have "natToString (nat (- a)) = natToString (nat (- b))"
      by (simp add: numberToString_def)
    then have "nat (- a) = nat (- b)" by (rule natToString_inj)
    with True s show ?thesis by simp
  next
    case False
    with s e have "natToString (nat a) = natToString (nat b)"
      by (simp add: numberToString_def)
    then have "nat a = nat b" by (rule natToString_inj)
    with False s show ?thesis by simp
  qed
qed

lemma roomName_inj: "roomName a = roomName b \<Longrightarrow> a = b"
  by (simp add: roomName_def numberToString_inj)

lemma roomMembers_join_other_application:
  "b \<noteq> a \<Longrightarrow>
   set (roomMembers (join_application socketId b r) (roomName a)) = set (roomMembers r (roomName a))"
  using roomName_inj[of a b] by (auto simp: roomMembers_join_application)

section \<open>Accepting an application\<close>

lemma createNotification_fst [simp]:
  "fst (createNotification now ins s) =
     Inr \<lparr>n_id = currentNotificationId s, n_userId = in_userId ins, n_type = in_type ins,
          n_content = in_content ins, n_isRead = False, n_createdAt = now,
          n_metadata = in_metadata ins\<rparr>"
  by (simp add: createNotification_def Let_def)

lemma createNotification_frame [simp]:
  "applications (snd (createNotification now ins s)) = applications s"
  "tasks (snd (createNotification now ins s)) = tasks s"
  "payments (snd (createNotification now ins s)) = payments s"
  "users (snd (createNotification now ins s)) = users s"
  by (simp_all add: createNotification_def Let_def)

lemma getApplication_createNotification [simp]:
  "getApplication (snd (createNotification now ins s)) i = getApplication s i"
  by (simp add: getApplication_def)

lemma getTask_createNotification [simp]:
  "getTask (snd (createNotification now ins s)) i = getTask s i"
  by (simp add: getTask_def)

lemma updateApplicationStatus_Some:
  "getApplication s i = Some x \<Longrightarrow>
   updateApplicationStatus i st s =
     (Inr (x\<lparr>a_status := Some st\<rparr>),
      s\<lparr>applications := AList.update i (x\<lparr>a_status := Some st\<rparr>) (applications s)\<rparr>)"
  by (simp add: updateApplicationStatus_def Let_def)

lemma updateApplicationStatus_tasks [simp]:
  "tasks (snd (updateApplicationStatus i st s)) = tasks s"
  by (simp add: updateApplicationStatus_def Let_def split: option.splits)

lemma rejectOthers_tasks [simp]:
  "tasks (snd (rejectOthers createNotification now task applicationId xs s)) = tasks s"
  by (induction xs arbitrary: s) (simp_all add: case_prod_beta sum.case_eq_if)

lemma getApplication_update:
  "getApplication (s\<lparr>applications := AList.update i x (applications s)\<rparr>) j =
     (if j = i then Some x else getApplication s j)"
  by (simp add: getApplication_def update_conv')

lemma rejectOthers_applications:
  assumes "distinct (map a_id xs)" "\<forall>x\<in>set xs. getApplication s (a_id x) = Some x"
  shows "fst (rejectOthers createNotification now task applicationId xs s) = Inr () \<and>
     (\<forall>i. getApplication (snd (rejectOthers createNotification now task applicationId xs s)) i =
        (if \<exists>x\<in>set xs. a_id x = i \<and> i \<noteq> applicationId \<and> a_status x = Some ''applied''
         then map_option (\<lambda>a. a\<lparr>a_status := Some ''rejected''\<rparr>) (getApplication s i)
         else getApplication s i))"
  using assms
proof (induction xs arbitrary: s)
  case Nil
  then show ?case by simp
next
  case (Cons x xs)
  have dx: "distinct (map a_id xs)" using Cons.prems(1) by simp
  have nx: "\<forall>y\<in>set xs. a_id y \<noteq> a_id x"
    using Cons.prems(1) by (metis distinct.simps(2) imageI list.simps(9) set_map)
  have gx: "getApplication s (a_id x) = Some x" using Cons.prems(2) by simp
  show ?case
  proof (cases "a_id x \<noteq> applicationId \<and> a_status x = Some ''applied''")
    case False
    have "\<forall>y\<in>set xs. getApplication s (a_id y) = Some y" using Cons.prems(2) by simp
    from Cons.IH[OF dx this] False show ?thesis by auto
  next
    case True
    let ?s1 = "s\<lparr>applications := AList.update (a_id x) (x\<lparr>a_status := Some ''rejected''\<rparr>)
        (applications s)\<rparr>"
    let ?ins = "\<lparr>in_userId = a_studentId x, in_type = ''application_rejected'',
        in_content = ApplicationHasBeen (t_title task) ''rejected'',
        in_metadata = [(''taskId'', MNum (t_id task)), (''applicationId'', MNum (a_id x))]\<rparr>"
    let ?s2 = "snd (createNotification now ?ins ?s1)"
    have g2: "getApplication ?s2 j =
        (if j = a_id x then Some (x\<lparr>a_status := Some ''rejected''\<rparr>) else getApplication s j)" for j
      by (simp add: getApplication_update)
    have pre: "\<forall>y\<in>set xs. getApplication ?s2 (a_id y) = Some y"
    proof
      fix y assume y: "y \<in> set xs"
      then have "a_id y \<noteq> a_id x" using nx by simp
      moreover have "getApplication s (a_id y) = Some y" using Cons.prems(2) y by simp
      ultimately show "getApplication ?s2 (a_id y) = Some y" by (simp add: getApplication_update)
    qed
    have step: "rejectOthers createNotification now task applicationId (x # xs) s =
        rejectOthers createNotification now task applicationId xs ?s2"
      using True by (simp add: updateApplicationStatus_Some[OF gx] case_prod_beta sum.case_eq_if)
    note IH = Cons.IH[OF dx pre]
    show ?thesis
      unfolding step
    proof (intro conjI allI)
      show "fst (rejectOthers createNotification now task applicationId xs ?s2) = Inr ()"
        using IH by blast
      fix i
      have "getApplication (snd (rejectOthers createNotification now task applicationId xs ?s2)) i =
        (if \<exists>y\<in>set xs. a_id y = i \<and> i \<noteq> applicationId \<and> a_status y = Some ''applied''
         then map_option (\<lambda>a. a\<lparr>a_status := Some ''rejected''\<rparr>) (getApplication ?s2 i)
         else getApplication ?s2 i)"
        using IH by blast
      also have "\<dots> =
        (if \<exists>y\<in>set (x # xs). a_id y = i \<and> i \<noteq> applicationId \<and> a_status y = Some ''applied''
         then map_option (\<lambda>a. a\<lparr>a_status := Some ''rejected''\<rparr>) (getApplication s i)
         else getApplication s i)"
      proof (cases "i = a_id x")
        case ix: True
        have no: "\<not> (\<exists>y\<in>set xs. a_id y = i \<and> i \<noteq> applicationId \<and> a_status y = Some ''applied'')"
          using nx ix by simp
        have yes: "\<exists>y\<in>set (x # xs). a_id y = i \<and> i \<noteq> applicationId \<and> a_status y = Some ''applied''"
          using True ix by simp
        have "getApplication ?s2 i = Some (x\<lparr>a_status := Some ''rejected''\<rparr>)"
          using ix by (simp add: getApplication_update)
        moreover have "getApplication s i = Some x" using gx ix by simp
        ultimately show ?thesis
          by (simp only: no yes if_True if_False option.map)
      next
        case False
        have e: "(\<exists>y\<in>set (x # xs). a_id y = i \<and> i \<noteq> applicationId \<and> a_status y = Some ''applied'') =
            (\<exists>y\<in>set xs. a_id y = i \<and> i \<noteq> applicationId \<and> a_status y = Some ''applied'')"
          using False by auto
        have "getApplication ?s2 i = getApplication s i" using False by (simp add: getApplication_update)
        then show ?thesis by (simp only: e)
      qed
      finally show "getApplication (snd (rejectOthers createNotification now task applicationId xs ?s2)) i =
        (if \<exists>y\<in>set (x # xs). a_id y = i \<and> i \<noteq> applicationId \<and> a_status y = Some ''applied''
         then map_option (\<lambda>a. a\<lparr>a_status := Some ''rejected''\<rparr>) (getApplication s i)
         else getApplication s i)" .
    qed
  qed
qed

lemma applicationsWellFormed_values_ids:
  assumes "applicationsWellFormed s"
  shows "map a_id (map snd (applications s)) = map fst (applications s)"
  using assms by (auto simp: applicationsWellFormed_def)

lemma getApplicationsByTaskId_distinct:
  assumes "applicationsWellFormed s"
  shows "distinct (map a_id (getApplicationsByTaskId s taskId))"
proof -
  have "distinct (map a_id (map snd (applications s)))"
    using assms applicationsWellFormed_values_ids[OF assms]
    by (simp add: applicationsWellFormed_def del: map_map)
  then show ?thesis
    unfolding getApplicationsByTaskId_def by (rule distinct_map_filter)
qed

lemma getApplicationsByTaskId_member:
  assumes "applicationsWellFormed s"
  shows "x \<in> set (getApplicationsByTaskId s taskId) \<longleftrightarrow>
     getApplication s (a_id x) = Some x \<and> a_taskId x = taskId"
proof
  assume "x \<in> set (getApplicationsByTaskId s taskId)"
  then obtain k where k: "(k, x) \<in> set (applications s)" and t: "a_taskId x = taskId"
    by (auto simp: getApplicationsByTaskId_def)
  from assms k have "a_id x = k" by (auto simp: applicationsWellFormed_def)
  moreover from assms k have "map_of (applications s) k = Some x"
    by (simp add: applicationsWellFormed_def)
  ultimately show "getApplication s (a_id x) = Some x \<and> a_taskId x = taskId"
    using t by (simp add: getApplication_def)
next
  assume "getApplication s (a_id x) = Some x \<and> a_taskId x = taskId"
  then show "x \<in> set (getApplicationsByTaskId s taskId)"
    by (auto simp: getApplication_def getApplicationsByTaskId_def dest!: map_of_SomeD
        intro: rev_image_eqI)
qed

lemma mergeTask_statusOnly: "mergeTask T (statusOnly v) = T\<lparr>t_status := Some v\<rparr>"
  by (cases T) (simp add: mergeTask_def statusOnly_def)

lemma applicationsWellFormed_cong:
  "applications s' = applications s \<Longrightarrow> applicationsWellFormed s' = applicationsWellFormed s"
  by (simp add: applicationsWellFormed_def)

lemma applicationsWellFormed_update:
  assumes "applicationsWellFormed s" "getApplication s i = Some A"
  shows "applicationsWellFormed
           (s\<lparr>applications := AList.update i (A\<lparr>a_status := v\<rparr>) (applications s)\<rparr>)"
proof -
  have ai: "a_id A = i" using assms by (rule applicationsWellFormed_application_id)
  have "a_id a = j" if "(j, a) \<in> set (AList.update i (A\<lparr>a_status := v\<rparr>) (applications s))" for j a
    using in_set_updateD[OF that] assms(1) ai by (auto simp: applicationsWellFormed_def)
  then show ?thesis
    using assms(1) by (auto simp: applicationsWellFormed_def distinct_update)
qed

lemma patch_api_applications_id_status_200:
  "patch_api_applications_id_status cn now reqUser applicationId status s = (Response 200 b, s') \<Longrightarrow>
   \<exists>caller A T. requireRole [''employer'', ''admin''] reqUser = Inr caller \<and>
     status \<in> set [''applied'', ''accepted'', ''rejected''] \<and>
     getApplication s applicationId = Some A \<and> getTask s (a_taskId A) = Some T \<and>
     (t_employerId T = u_id caller \<or> u_role caller = ''admin'')"
  by (auto simp: patch_api_applications_id_status_def requireRole_def
      split: sum.splits option.splits if_splits)

text \<open>
  The run of the handler for \<open>accepted\<close>. The handler reads the task \<open>T\<close> under the
  application's \<open>taskId\<close> and then works with \<open>T.id\<close>: it updates the task stored under
  \<open>T.id\<close> (here \<open>T0\<close>) and rejects the \<open>applied\<close> applications whose \<open>taskId\<close> is \<open>T.id\<close>.
\<close>

lemma accept_run:
  fixes now :: nat
  assumes wf: "applicationsWellFormed s"
    and c: "requireRole [''employer'', ''admin''] reqUser = Inr caller"
    and A: "getApplication s applicationId = Some A"
    and T: "getTask s (a_taskId A) = Some T"
    and o: "t_employerId T = u_id caller \<or> u_role caller = ''admin''"
    and T0: "getTask s (t_id T) = Some T0"
  defines "s2 \<equiv> s\<lparr>applications :=
                    AList.update applicationId (A\<lparr>a_status := Some ''accepted''\<rparr>) (applications s),
                  tasks := AList.update (t_id T) (T0\<lparr>t_status := Some ''in-progress''\<rparr>) (tasks s)\<rparr>"
  defines "s3 \<equiv> snd (rejectOthers createNotification now T applicationId
                   (getApplicationsByTaskId s2 (t_id T)) s2)"
  shows "fst (patch_api_applications_id_status createNotification now reqUser applicationId
            ''accepted'' s) = Response 200 (ApplicationJson (A\<lparr>a_status := Some ''accepted''\<rparr>))"
    and "applications (snd (patch_api_applications_id_status createNotification now reqUser
            applicationId ''accepted'' s)) = applications s3"
    and "tasks (snd (patch_api_applications_id_status createNotification now reqUser
            applicationId ''accepted'' s)) = tasks s2"
    and "fst (rejectOthers createNotification now T applicationId
                   (getApplicationsByTaskId s2 (t_id T)) s2) = Inr ()"
    and "\<forall>i. getApplication s3 i =
        (if \<exists>x\<in>set (getApplicationsByTaskId s2 (t_id T)).
              a_id x = i \<and> i \<noteq> applicationId \<and> a_status x = Some ''applied''
         then map_option (\<lambda>a. a\<lparr>a_status := Some ''rejected''\<rparr>) (getApplication s2 i)
         else getApplication s2 i)"
    and "applicationsWellFormed s2"
proof -
  have "applicationsWellFormed
          (s\<lparr>applications :=
               AList.update applicationId (A\<lparr>a_status := Some ''accepted''\<rparr>) (applications s)\<rparr>)"
    using wf A by (rule applicationsWellFormed_update)
  then show wf2: "applicationsWellFormed s2"
    by (simp add: s2_def applicationsWellFormed_def)
  have d: "distinct (map a_id (getApplicationsByTaskId s2 (t_id T)))"
    using wf2 by (rule getApplicationsByTaskId_distinct)
  have m: "\<forall>x\<in>set (getApplicationsByTaskId s2 (t_id T)). getApplication s2 (a_id x) = Some x"
    using getApplicationsByTaskId_member[OF wf2] by blast
  note R = rejectOthers_applications[OF d m, of now T applicationId]
  show r1: "fst (rejectOthers createNotification now T applicationId
                   (getApplicationsByTaskId s2 (t_id T)) s2) = Inr ()"
    using R by blast
  show "\<forall>i. getApplication s3 i =
        (if \<exists>x\<in>set (getApplicationsByTaskId s2 (t_id T)).
              a_id x = i \<and> i \<noteq> applicationId \<and> a_status x = Some ''applied''
         then map_option (\<lambda>a. a\<lparr>a_status := Some ''rejected''\<rparr>) (getApplication s2 i)
         else getApplication s2 i)"
    unfolding s3_def using R by blast
  have ut: "updateTask (t_id T) (statusOnly ''in-progress'')
       (s\<lparr>applications :=
            AList.update applicationId (A\<lparr>a_status := Some ''accepted''\<rparr>) (applications s)\<rparr>) =
     (Inr (T0\<lparr>t_status := Some ''in-progress''\<rparr>), s2)"
    using T0 by (simp add: updateTask_def getTask_def mergeTask_statusOnly s2_def Let_def)
  have run: "patch_api_applications_id_status createNotification now reqUser applicationId
            ''accepted'' s =
      (Response 200 (ApplicationJson (A\<lparr>a_status := Some ''accepted''\<rparr>)),
       snd (createNotification now
              \<lparr>in_userId = a_studentId A, in_type = ''application_'' @ ''accepted'',
               in_content = ApplicationHasBeen (t_title T) ''accepted'',
               in_metadata = [(''taskId'', MNum (t_id T)), (''applicationId'', MNum (a_id A))]\<rparr>
              s3))"
    using c A T o r1
    by (simp add: patch_api_applications_id_status_def updateApplicationStatus_Some[OF A] ut
        s3_def case_prod_beta sum.case_eq_if)
  show "fst (patch_api_applications_id_status createNotification now reqUser applicationId
            ''accepted'' s) = Response 200 (ApplicationJson (A\<lparr>a_status := Some ''accepted''\<rparr>))"
    by (simp add: run)
  show "applications (snd (patch_api_applications_id_status createNotification now reqUser
            applicationId ''accepted'' s)) = applications s3"
    by (simp add: run)
  show "tasks (snd (patch_api_applications_id_status createNotification now reqUser
            applicationId ''accepted'' s)) = tasks s2"
    by (simp add: run s3_def)
qed

lemma demoStore_accept_fst:
  "fst (patch_api_applications_id_status createNotification 7 (Some erin) 1 ''accepted'' demoStore) =
     Response 200 (ApplicationJson
       \<lparr>a_id = 1, a_taskId = 1, a_studentId = 2,
        a_coverLetter = ''I would like to work on this task.'',
        a_status = Some ''accepted'', a_appliedAt = 5\<rparr>)"
  by (simp add: demoStore_eq handler_defs storage_defs erin_def route_defs Let_def)

text \<open>
  The cascade for a task that carries its own id. Let the applications be stored under
  their own ids, let \<open>A\<close> be an application and \<open>T\<close> the task stored under \<open>A.taskId\<close>, with
  \<open>T.id = A.taskId\<close>. A call of the status route with decision \<open>accepted\<close> that is answered
  200 returns \<open>A\<close> with status \<open>accepted\<close> and leaves \<open>A\<close> stored so, sets \<open>T\<close>'s status to
  \<open>in-progress\<close>, and sets every other application of \<open>T\<close> whose status was \<open>applied\<close> to
  \<open>rejected\<close>. Every other application of \<open>T\<close> (rejected, accepted, or without a status) is
  left as it was, and so are the applications of other tasks and the other tasks.
\<close>

lemma accept_cascade:
  assumes wf: "applicationsWellFormed s"
    and A: "getApplication s applicationId = Some A"
    and T: "getTask s (a_taskId A) = Some T"
    and tid: "t_id T = a_taskId A"
    and ok: "patch_api_applications_id_status createNotification now reqUser applicationId
               ''accepted'' s = (Response 200 b, s')"
  shows "b = ApplicationJson (A\<lparr>a_status := Some ''accepted''\<rparr>) \<and>
     getApplication s' applicationId = Some (A\<lparr>a_status := Some ''accepted''\<rparr>) \<and>
     getTask s' (a_taskId A) = Some (T\<lparr>t_status := Some ''in-progress''\<rparr>) \<and>
     (\<forall>i B. i \<noteq> applicationId \<and> getApplication s i = Some B \<longrightarrow>
        getApplication s' i =
          Some (if a_taskId B = a_taskId A \<and> a_status B = Some ''applied''
                then B\<lparr>a_status := Some ''rejected''\<rparr> else B)) \<and>
     (\<forall>k. k \<noteq> a_taskId A \<longrightarrow> getTask s' k = getTask s k)"
proof -
  from patch_api_applications_id_status_200[OF ok] A T obtain caller where
    c: "requireRole [''employer'', ''admin''] reqUser = Inr caller"
    and o: "t_employerId T = u_id caller \<or> u_role caller = ''admin''"
    by auto
  have T0: "getTask s (t_id T) = Some T" using T tid by simp
  let ?s2 = "s\<lparr>applications :=
      AList.update applicationId (A\<lparr>a_status := Some ''accepted''\<rparr>) (applications s),
      tasks := AList.update (t_id T) (T\<lparr>t_status := Some ''in-progress''\<rparr>) (tasks s)\<rparr>"
  let ?xs = "getApplicationsByTaskId ?s2 (t_id T)"
  let ?s3 = "snd (rejectOthers createNotification now T applicationId ?xs ?s2)"
  note R1 = accept_run(1)[OF wf c A T o T0, of now]
    and R2 = accept_run(2)[OF wf c A T o T0, of now]
    and R3 = accept_run(3)[OF wf c A T o T0, of now]
    and R5 = accept_run(5)[OF wf c A T o T0, of now]
    and R6 = accept_run(6)[OF wf c A T o T0]
  have b: "b = ApplicationJson (A\<lparr>a_status := Some ''accepted''\<rparr>)"
    using R1 ok by simp
  have apps: "applications s' = applications ?s3" and tasks: "tasks s' = tasks ?s2"
    using R2 R3 ok by simp_all
  have wf2: "applicationsWellFormed ?s2" by (rule R6)
  have g2: "getApplication ?s2 i =
      (if i = applicationId then Some (A\<lparr>a_status := Some ''accepted''\<rparr>) else getApplication s i)"
    for i
    by (simp add: getApplication_def update_conv')
  have g3: "getApplication ?s3 i =
        (if \<exists>x\<in>set ?xs. a_id x = i \<and> i \<noteq> applicationId \<and> a_status x = Some ''applied''
         then map_option (\<lambda>a. a\<lparr>a_status := Some ''rejected''\<rparr>) (getApplication ?s2 i)
         else getApplication ?s2 i)" for i
    using R5 by blast
  have g': "getApplication s' i = getApplication ?s3 i" for i
    by (simp add: getApplication_def apps)
  have mem: "x \<in> set ?xs \<longleftrightarrow> getApplication ?s2 (a_id x) = Some x \<and> a_taskId x = t_id T" for x
    by (rule getApplicationsByTaskId_member[OF wf2])
  have self: "getApplication s' applicationId = Some (A\<lparr>a_status := Some ''accepted''\<rparr>)"
    by (simp add: g' g3 g2)
  have task: "getTask s' (a_taskId A) = Some (T\<lparr>t_status := Some ''in-progress''\<rparr>)"
    and others: "\<forall>k. k \<noteq> a_taskId A \<longrightarrow> getTask s' k = getTask s k"
    by (simp_all add: getTask_def tasks tid update_conv')
  have sib: "getApplication s' i =
          Some (if a_taskId B = a_taskId A \<and> a_status B = Some ''applied''
                then B\<lparr>a_status := Some ''rejected''\<rparr> else B)"
    if ne: "i \<noteq> applicationId" and B: "getApplication s i = Some B" for i B
  proof -
    have B2: "getApplication ?s2 i = Some B" using ne B by (simp add: g2)
    have Bi: "a_id B = i" using wf B by (rule applicationsWellFormed_application_id)
    have "(\<exists>x\<in>set ?xs. a_id x = i \<and> i \<noteq> applicationId \<and> a_status x = Some ''applied'') \<longleftrightarrow>
        (a_taskId B = a_taskId A \<and> a_status B = Some ''applied'')"
    proof
      assume "\<exists>x\<in>set ?xs. a_id x = i \<and> i \<noteq> applicationId \<and> a_status x = Some ''applied''"
      then obtain x where x: "x \<in> set ?xs" "a_id x = i" "a_status x = Some ''applied''" by blast
      from x(1) have "getApplication ?s2 (a_id x) = Some x" "a_taskId x = t_id T"
        using mem by blast+
      with x(2) B2 have "x = B" by simp
      with x \<open>a_taskId x = t_id T\<close> tid
      show "a_taskId B = a_taskId A \<and> a_status B = Some ''applied''" by simp
    next
      assume h: "a_taskId B = a_taskId A \<and> a_status B = Some ''applied''"
      then have "B \<in> set ?xs" using mem[of B] B2 Bi tid by simp
      with h Bi ne show "\<exists>x\<in>set ?xs. a_id x = i \<and> i \<noteq> applicationId \<and> a_status x = Some ''applied''"
        by blast
    qed
    then show ?thesis by (simp add: g' g3 B2)
  qed
  from b self task sib others show ?thesis by blast
qed

text \<open>
  In the example store, where both students have applied to task 1: Erin accepts Sam's
  application, task 1 goes to \<open>in-progress\<close> and Tara's application is rejected.
\<close>

lemma accept_cascade_example:
  "map_option a_status (getApplication demoStore 1) = Some (Some ''applied'') \<and>
   map_option a_status (getApplication demoStore 2) = Some (Some ''applied'') \<and>
   map_option t_status (getTask demoStore 1) = Some (Some ''open'') \<and>
   statusCode (fst (patch_api_applications_id_status createNotification 7 (Some erin) 1
      ''accepted'' demoStore)) = 200 \<and>
   map_option a_status (getApplication acceptedStore 1) = Some (Some ''accepted'') \<and>
   map_option t_status (getTask acceptedStore 1) = Some (Some ''in-progress'') \<and>
   map_option a_status (getApplication acceptedStore 2) = Some (Some ''rejected'')"
proof -
  have "statusCode (fst (patch_api_applications_id_status createNotification 7 (Some erin) 1
      ''accepted'' demoStore)) = 200"
    by (simp add: demoStore_accept_fst)
  moreover have
    "map_option a_status (getApplication demoStore 1) = Some (Some ''applied'')"
    "map_option a_status (getApplication demoStore 2) = Some (Some ''applied'')"
    "map_option t_status (getTask demoStore 1) = Some (Some ''open'')"
    "map_option a_status (getApplication acceptedStore 1) = Some (Some ''accepted'')"
    "map_option t_status (getTask acceptedStore 1) = Some (Some ''in-progress'')"
    "map_option a_status (getApplication acceptedStore 2) = Some (Some ''rejected'')"
    by (simp_all add: acceptedStore_eq demoStore_eq getApplication_def getTask_def)
  ultimately show ?thesis by (intro conjI)
qed

text \<open>
  Claim C1 at a failing input. \<^verbatim>\<open>updateTask\<close> stores \<^verbatim>\<open>{ ...task, ...taskData }\<close>, and
  PATCH /api/tasks/:id hands it the request body as it came: a body with the key \<open>id\<close>
  overwrites the task's id, while the task stays under its old key. (\<^verbatim>\<open>createTask\<close> spreads
  the other way round, \<^verbatim>\<open>{ ...insertTask, id }\<close>.) The status route reads the task under
  the application's \<open>taskId\<close> and then works with \<^verbatim>\<open>task.id\<close>.

  In \<^const>\<open>renumberedStore\<close> Erin has sent her task 1 the body \<^verbatim>\<open>{ id: 2 }\<close>. Sam and Tara
  have applied to task 1 (applications 1 and 2), Sam also to task 2 (application 3). Erin
  accepts application 1 and is answered 200. Application 1 is accepted; but task 1 is still
  \<open>open\<close> and Tara's application to it is still \<open>applied\<close>, while task 2 has gone to
  \<open>in-progress\<close> and Sam's application to task 2 has been rejected.
\<close>

theorem accept_after_task_id_overwrite:
  "renumberedStore =
     run [PostTask 8 (Some erin) logoBody,
          PostApplication 9 (Some sam) (applyBody 2 2),
          PatchTask (Some erin) 1 (idOnly 2)] demoStore \<and>
   map_option a_taskId (getApplication renumberedStore 1) = Some 1 \<and>
   map_option a_status (getApplication renumberedStore 1) = Some (Some ''applied'') \<and>
   map_option a_taskId (getApplication renumberedStore 2) = Some 1 \<and>
   map_option a_status (getApplication renumberedStore 2) = Some (Some ''applied'') \<and>
   map_option a_taskId (getApplication renumberedStore 3) = Some 2 \<and>
   map_option a_status (getApplication renumberedStore 3) = Some (Some ''applied'') \<and>
   map_option t_status (getTask renumberedStore 1) = Some (Some ''open'') \<and>
   map_option t_status (getTask renumberedStore 2) = Some (Some ''open'') \<and>
   (let r = patch_api_applications_id_status createNotification 10 (Some erin) 1 ''accepted''
              renumberedStore
    in statusCode (fst r) = 200 \<and>
       map_option a_status (getApplication (snd r) 1) = Some (Some ''accepted'') \<and>
       map_option t_status (getTask (snd r) 1) = Some (Some ''open'') \<and>
       map_option a_status (getApplication (snd r) 2) = Some (Some ''applied'') \<and>
       map_option t_status (getTask (snd r) 2) = Some (Some ''in-progress'') \<and>
       map_option a_status (getApplication (snd r) 3) = Some (Some ''rejected''))"
proof -
  have "renumberedStore =
     run [PostTask 8 (Some erin) logoBody,
          PostApplication 9 (Some sam) (applyBody 2 2),
          PatchTask (Some erin) 1 (idOnly 2)] demoStore"
    by (rule renumberedStore_def)
  moreover have
    "map_option a_taskId (getApplication renumberedStore 1) = Some 1"
    "map_option a_status (getApplication renumberedStore 1) = Some (Some ''applied'')"
    "map_option a_taskId (getApplication renumberedStore 2) = Some 1"
    "map_option a_status (getApplication renumberedStore 2) = Some (Some ''applied'')"
    "map_option a_taskId (getApplication renumberedStore 3) = Some 2"
    "map_option a_status (getApplication renumberedStore 3) = Some (Some ''applied'')"
    "map_option t_status (getTask renumberedStore 1) = Some (Some ''open'')"
    "map_option t_status (getTask renumberedStore 2) = Some (Some ''open'')"
    by (simp_all add: renumberedStore_eq demoStore_eq getApplication_def getTask_def)
  moreover have
    "let r = patch_api_applications_id_status createNotification 10 (Some erin) 1 ''accepted''
              renumberedStore
    in statusCode (fst r) = 200 \<and>
       map_option a_status (getApplication (snd r) 1) = Some (Some ''accepted'') \<and>
       map_option t_status (getTask (snd r) 1) = Some (Some ''open'') \<and>
       map_option a_status (getApplication (snd r) 2) = Some (Some ''applied'') \<and>
       map_option t_status (getTask (snd r) 2) = Some (Some ''in-progress'') \<and>
       map_option a_status (getApplication (snd r) 3) = Some (Some ''rejected'')"
    by (simp add: renumberedStore_eq demoStore_eq handler_defs storage_defs erin_def route_defs
        Let_def)
  ultimately show ?thesis by (intro conjI)
qed

section \<open>Every request keeps the applications under their own ids\<close>

text \<open>
  The constructor's store has its applications well-formed, and every request keeps them
  so: the hypothesis \<^const>\<open>applicationsWellFormed\<close> of the statements above and below holds
  of every store the server reaches. The same does not hold of the tasks: a task update
  whose body carries the key \<open>id\<close> leaves a task stored under a key that is not its id.
\<close>

lemma applicationsWellFormed_createNotification [simp]:
  "applicationsWellFormed (snd (createNotification now ins s)) = applicationsWellFormed s"
  by (rule applicationsWellFormed_cong) simp

lemma applicationsWellFormed_updateUser [simp]:
  "applicationsWellFormed (snd (updateUser i p s)) = applicationsWellFormed s"
  by (rule applicationsWellFormed_cong) (simp add: updateUser_def Let_def split: option.splits)

lemma applicationsWellFormed_createTask [simp]:
  "applicationsWellFormed (snd (createTask now it s)) = applicationsWellFormed s"
  by (rule applicationsWellFormed_cong) (simp add: createTask_def Let_def)

lemma applicationsWellFormed_updateTask [simp]:
  "applicationsWellFormed (snd (updateTask i p s)) = applicationsWellFormed s"
  by (rule applicationsWellFormed_cong) (simp add: updateTask_def Let_def split: option.splits)

lemma applicationsWellFormed_createPayment [simp]:
  "applicationsWellFormed (snd (createPayment now ip s)) = applicationsWellFormed s"
  by (rule applicationsWellFormed_cong) (simp add: createPayment_def Let_def)

lemma applicationsWellFormed_awardBadgeToUser [simp]:
  "applicationsWellFormed (snd (awardBadgeToUser now iub s)) = applicationsWellFormed s"
  by (rule applicationsWellFormed_cong)
     (simp add: awardBadgeToUser_def Let_def split: option.splits)







section \<open>Notifications and the operations that emit them\<close>

text \<open>
  The routes await \<^verbatim>\<open>storage.createNotification\<close> inside their \<^verbatim>\<open>try\<close> block, with no
  \<^verbatim>\<open>catch\<close> of their own around it, and \<^verbatim>\<open>storage\<close> is the \<^verbatim>\<open>MemStorage\<close>. Its
  \<^const>\<open>createNotification\<close> builds the notification, stores it and returns it: it has no
  \<^verbatim>\<open>throw\<close>, reads no entity that could be missing, and writes only the notifications and
  their counter.
\<close>

lemma updateTask_getApplication [simp]:
  "getApplication (snd (updateTask i p s)) j = getApplication s j"
  by (simp add: updateTask_def getApplication_def Let_def split: option.splits)





text \<open>
  Were \<^verbatim>\<open>createNotification\<close> to throw, the route's \<^verbatim>\<open>catch\<close> would answer: with
  \<^const>\<open>failingCreateNotification\<close> in its place, Erin's rejection of application 2 is
  answered 500 "Failed to update application status", and application 2 is rejected all
  the same. With the \<^verbatim>\<open>MemStorage\<close> the answer is 200.
\<close>

lemma throwing_notifier_example:
  "statusCode (fst (patch_api_applications_id_status createNotification 7 (Some erin) 2
      ''rejected'' demoStore)) = 200 \<and>
   patch_api_applications_id_status failingCreateNotification 7 (Some erin) 2 ''rejected''
       demoStore =
     (Response 500 (Message ''Failed to update application status''),
      demoStore\<lparr>applications :=
        [(1, \<lparr>a_id = 1, a_taskId = 1, a_studentId = 2,
               a_coverLetter = ''I would like to work on this task.'',
               a_status = Some ''applied'', a_appliedAt = 5\<rparr>),
         (2, \<lparr>a_id = 2, a_taskId = 1, a_studentId = 3,
               a_coverLetter = ''I would like to work on this task.'',
               a_status = Some ''rejected'', a_appliedAt = 6\<rparr>)]\<rparr>)"
  by (simp add: demoStore_eq patch_api_applications_id_status_def requireRole_def erin_def
      getApplication_def getTask_def updateApplicationStatus_def createNotification_def
      failingCreateNotification_def Let_def)



end
